theory Spec2Isabelle
  imports Complex_Main "HOL-Library.Char_ord" "HOL-Library.List_Lexorder" "HOL-Library.Sublist"
begin

section \<open>Python values and exceptions\<close>

text \<open>
  The pipeline is Python. Its floats are modelled as exact reals (no NaN, and no rounding
  but the one named below); \<open>float('inf')\<close> is the separate value \<open>PInf\<close>. Every
  exception the modelled code can raise is a value of \<open>py_error\<close>, and a function that
  can raise returns \<open>py_error + 'a\<close>.
\<close>

datatype py_error = ZeroDivisionError | ValueError | OverflowError | TypeError
  | AttributeError | KeyError | EOFError | AdapterError

datatype pyval =
    PNone
  | PBool bool
  | PInt int
  | PFloat real
  | PInf
  | PStr string
  | PList "string list"
  | PDict "(string \<times> pyval) list"

type_synonym pydict = "(string \<times> pyval) list"

definition bind_err :: "py_error + 'a \<Rightarrow> ('a \<Rightarrow> py_error + 'b) \<Rightarrow> py_error + 'b" where
  "bind_err r f = (case r of Inl e \<Rightarrow> Inl e | Inr x \<Rightarrow> f x)"

text \<open>\<open>d.get(k, default)\<close> and \<open>k in d\<close> on a dictionary kept as an association list.\<close>

definition dict_get :: "pydict \<Rightarrow> string \<Rightarrow> pyval \<Rightarrow> pyval" where
  "dict_get d k dflt = (case map_of d k of None \<Rightarrow> dflt | Some v \<Rightarrow> v)"

definition dict_has :: "pydict \<Rightarrow> string \<Rightarrow> bool" where
  "dict_has d k = (map_of d k \<noteq> None)"

text \<open>Truthiness of an \<open>Optional[float]\<close> field: \<open>None\<close> and \<open>0\<close> are both falsy.\<close>

definition truthy :: "real option \<Rightarrow> bool" where
  "truthy x = (case x of None \<Rightarrow> False | Some v \<Rightarrow> v \<noteq> 0)"

text \<open>\<open>not x\<close> on such a field.\<close>

definition falsy :: "real option \<Rightarrow> bool" where
  "falsy x = (case x of None \<Rightarrow> True | Some v \<Rightarrow> v = 0)"

definition truthy_int :: "int option \<Rightarrow> bool" where
  "truthy_int x = (case x of None \<Rightarrow> False | Some v \<Rightarrow> v \<noteq> 0)"

text \<open>Float division raises on a zero divisor.\<close>

definition py_div :: "real \<Rightarrow> real \<Rightarrow> py_error + real" where
  "py_div a b = (if b = 0 then Inl ZeroDivisionError else Inr (a / b))"

text \<open>
  The largest finite double, and the float sum \<open>1 + c\<close>: it is \<open>1.0\<close> when \<open>c\<close> lies
  within half a unit in the last place of 1, which is the one rounding of the modelled code
  that decides between a result and an exception.
\<close>

definition FLOAT_MAX :: real where
  "FLOAT_MAX = 2 ^ 1024 - 2 ^ 971"

definition float_one_plus :: "real \<Rightarrow> real" where
  "float_one_plus c = (if - (1 / 2 ^ 54) \<le> c \<and> c \<le> 1 / 2 ^ 53 then 1 else 1 + c)"

text \<open>
  \<open>math.pow(x, n)\<close> for an integral exponent: a zero base with a negative exponent is a
  domain error, and a result beyond the largest double is an overflow error.
\<close>

definition math_pow :: "real \<Rightarrow> int \<Rightarrow> py_error + real" where
  "math_pow x n =
     (if x = 0 \<and> n < 0 then Inl ValueError
      else if \<bar>x powi n\<bar> > FLOAT_MAX then Inl OverflowError
      else Inr (x powi n))"

section \<open>models/property.py\<close>

record property =
  property_id :: string
  source :: string
  property_url :: string
  property_type :: string
  address :: string
  city :: string
  state :: string
  zip_code :: string
  price :: "real option"
  bedrooms :: "real option"
  bathrooms :: "real option"
  square_feet :: "real option"
  year_built :: "int option"
  monthly_rent :: "real option"
  annual_rent :: "real option"
  rental_yield :: "real option"
  cap_rate :: "real option"
  price_to_rent_ratio :: "real option"
  risk_level :: "string option"
  financial_metrics :: pydict

text \<open>
  The fields \<open>latitude\<close>, \<open>longitude\<close>, \<open>lot_size\<close>, \<open>estimated_monthly_mortgage\<close>,
  \<open>vacancy_rate\<close>, the location metrics, \<open>description\<close>, \<open>features\<close>, \<open>image_urls\<close>,
  \<open>date_listed\<close> and \<open>raw_data\<close> are carried along unread by every function modelled
  here and are left out of the record. \<open>price\<close> is declared \<open>float\<close> but tested with
  \<open>not price\<close>, so it is optional here too.
\<close>

text \<open>\<open>Property.__post_init__\<close>: the four statements in source order.\<close>

definition post_init_yield :: "property \<Rightarrow> property" where
  "post_init_yield p =
     (if truthy (annual_rent p) \<and> truthy (price p) \<and> the (price p) > 0
      then p\<lparr>rental_yield := Some ((the (annual_rent p) / the (price p)) * 100)\<rparr>
      else p)"

definition post_init_ratio :: "property \<Rightarrow> property" where
  "post_init_ratio p =
     (if truthy (annual_rent p) \<and> truthy (price p) \<and> the (annual_rent p) > 0
      then p\<lparr>price_to_rent_ratio := Some (the (price p) / the (annual_rent p))\<rparr>
      else p)"

definition post_init_annual :: "property \<Rightarrow> property" where
  "post_init_annual p =
     (if truthy (monthly_rent p) \<and> \<not> truthy (annual_rent p)
      then (let p1 = p\<lparr>annual_rent := Some (the (monthly_rent p) * 12)\<rparr>
            in if truthy (price p1) \<and> the (price p1) > 0
               then p1\<lparr>rental_yield := Some ((the (annual_rent p1) / the (price p1)) * 100),
                       price_to_rent_ratio := Some (the (price p1) / the (annual_rent p1))\<rparr>
               else p1)
      else p)"

definition post_init_monthly :: "property \<Rightarrow> property" where
  "post_init_monthly p =
     (if truthy (annual_rent p) \<and> \<not> truthy (monthly_rent p)
      then p\<lparr>monthly_rent := Some (the (annual_rent p) / 12)\<rparr>
      else p)"

definition post_init :: "property \<Rightarrow> property" where
  "post_init p = post_init_monthly (post_init_annual (post_init_ratio (post_init_yield p)))"

section \<open>utils/financial_analysis.py\<close>

definition DEFAULT_PROPERTY_TAX_RATE :: real where "DEFAULT_PROPERTY_TAX_RATE = 11 / 1000"
definition DEFAULT_INSURANCE_RATE :: real where "DEFAULT_INSURANCE_RATE = 5 / 1000"
definition DEFAULT_VACANCY_RATE :: real where "DEFAULT_VACANCY_RATE = 5 / 100"
definition DEFAULT_MAINTENANCE_RATE :: real where "DEFAULT_MAINTENANCE_RATE = 5 / 100"
definition DEFAULT_MANAGEMENT_FEE_RATE :: real where "DEFAULT_MANAGEMENT_FEE_RATE = 1 / 10"
definition DEFAULT_MORTGAGE_INTEREST_RATE :: real where "DEFAULT_MORTGAGE_INTEREST_RATE = 55 / 1000"
definition DEFAULT_MORTGAGE_TERM_YEARS :: int where "DEFAULT_MORTGAGE_TERM_YEARS = 30"

definition calculate_mortgage_payment :: "real \<Rightarrow> real \<Rightarrow> int \<Rightarrow> py_error + real" where
  "calculate_mortgage_payment loan_amount annual_interest_rate loan_term_years =
     (let monthly_rate = annual_interest_rate / 12;
          num_payments = loan_term_years * 12
      in if monthly_rate = 0 then py_div loan_amount (of_int num_payments)
         else bind_err (math_pow (float_one_plus monthly_rate) num_payments) (\<lambda>pw1.
              bind_err (math_pow (float_one_plus monthly_rate) num_payments) (\<lambda>pw2.
              py_div (loan_amount * (monthly_rate * pw1)) (pw2 - 1))))"

text \<open>Comparison of a metric that may be \<open>float('inf')\<close> with a finite threshold.\<close>

definition lt_num :: "pyval \<Rightarrow> real \<Rightarrow> bool" where
  "lt_num v r = (case v of PFloat x \<Rightarrow> x < r | _ \<Rightarrow> False)"

definition MISSING_PRICE :: string where
  "MISSING_PRICE = ''Property price is required and must be greater than zero''"

definition MISSING_RENT :: string where
  "MISSING_RENT = ''Rental information is missing, limited metrics available''"

text \<open>The rent the engine works with: \<open>annual_rent or (monthly_rent * 12 if monthly_rent else None)\<close>.\<close>

definition effective_annual_rent :: "property \<Rightarrow> real option" where
  "effective_annual_rent p =
     (if truthy (annual_rent p) then annual_rent p
      else if truthy (monthly_rent p) then Some (the (monthly_rent p) * 12) else None)"

text \<open>The branch of \<open>calculate_metrics\<close> taken when rent is missing.\<close>

definition partial_metrics :: "real \<Rightarrow> real \<Rightarrow> real \<Rightarrow> int \<Rightarrow> py_error + pydict" where
  "partial_metrics pr down_payment_percentage interest_rate loan_term_years =
     (let down_payment = pr * down_payment_percentage;
          loan_amount = pr - down_payment
      in bind_err (calculate_mortgage_payment loan_amount interest_rate loan_term_years)
           (\<lambda>mmp. Inr [(''error'', PStr MISSING_RENT),
                        (''down_payment'', PFloat down_payment),
                        (''loan_amount'', PFloat loan_amount),
                        (''monthly_mortgage_payment'', PFloat mmp)]))"

text \<open>The risk score: four independent checks, each adding to the score and the reasons.\<close>

definition risk_cap_rate :: "real \<Rightarrow> string list \<times> int" where
  "risk_cap_rate cr =
     (if cr < 4 then ([''Low cap rate''], 2)
      else if cr < 6 then ([''Moderate cap rate''], 1) else ([], 0))"

definition risk_cash_on_cash :: "real \<Rightarrow> string list \<times> int" where
  "risk_cash_on_cash coc =
     (if coc < 4 then ([''Low cash on cash return''], 2)
      else if coc < 8 then ([''Moderate cash on cash return''], 1) else ([], 0))"

definition risk_dscr :: "pyval \<Rightarrow> string list \<times> int" where
  "risk_dscr d =
     (if lt_num d 1 then ([''DSCR below 1.0 (negative cash flow)''], 3)
      else if lt_num d (5 / 4) then ([''Low DSCR (tight cash flow)''], 2)
      else if lt_num d (3 / 2) then ([''Moderate DSCR''], 1) else ([], 0))"

definition risk_one_percent :: "bool \<Rightarrow> string list \<times> int" where
  "risk_one_percent passed = (if \<not> passed then ([''Does not meet 1% rule''], 1) else ([], 0))"

definition risk_level_of :: "int \<Rightarrow> string" where
  "risk_level_of risk_score =
     (if risk_score \<le> 1 then ''Low'' else if risk_score \<le> 4 then ''Moderate'' else ''High'')"

text \<open>The branch of \<open>calculate_metrics\<close> taken when price and rent are both there.\<close>

definition full_metrics ::
  "real \<Rightarrow> real \<Rightarrow> real \<Rightarrow> real \<Rightarrow> real \<Rightarrow> int \<Rightarrow> py_error + pydict" where
  "full_metrics pr monthly_rent0 annual_rent0 down_payment_percentage interest_rate loan_term_years =
     (let down_payment = pr * down_payment_percentage;
          loan_amount = pr - down_payment
      in bind_err (calculate_mortgage_payment loan_amount interest_rate loan_term_years)
      (\<lambda>monthly_mortgage_payment.
       let property_tax = pr * DEFAULT_PROPERTY_TAX_RATE / 12;
           insurance = pr * DEFAULT_INSURANCE_RATE / 12;
           vacancy_cost = monthly_rent0 * DEFAULT_VACANCY_RATE;
           maintenance = monthly_rent0 * DEFAULT_MAINTENANCE_RATE;
           property_management = monthly_rent0 * DEFAULT_MANAGEMENT_FEE_RATE;
           total_monthly_expenses =
             property_tax + insurance + vacancy_cost + maintenance + property_management;
           monthly_cash_flow = monthly_rent0 - monthly_mortgage_payment - total_monthly_expenses;
           annual_cash_flow = monthly_cash_flow * 12;
           monthly_noi = monthly_rent0 - total_monthly_expenses;
           annual_noi = monthly_noi * 12;
           cap_rate0 = (annual_noi / pr) * 100;
           rental_yield0 = (annual_rent0 / pr) * 100
       in bind_err (py_div annual_cash_flow down_payment)
       (\<lambda>q. let cash_on_cash_return = q * 100;
                gross_rent_multiplier = pr / annual_rent0;
                annual_debt_service = monthly_mortgage_payment * 12;
                debt_service_coverage_ratio =
                  (if annual_debt_service > 0 then PFloat (annual_noi / annual_debt_service)
                   else PInf);
                price_to_rent_ratio0 = pr / annual_rent0;
                break_even_ratio =
                  (if monthly_rent0 > 0
                   then PFloat ((total_monthly_expenses + monthly_mortgage_payment) / monthly_rent0)
                   else PInf);
                operating_expense_ratio =
                  (if monthly_rent0 > 0 then PFloat (total_monthly_expenses / monthly_rent0)
                   else PInf);
                one_percent_rule_value = (if pr > 0 then monthly_rent0 / pr * 100 else 0);
                one_percent_rule_passed = (one_percent_rule_value \<ge> 1);
                r1 = risk_cap_rate cap_rate0;
                r2 = risk_cash_on_cash cash_on_cash_return;
                r3 = risk_dscr debt_service_coverage_ratio;
                r4 = risk_one_percent one_percent_rule_passed;
                risk_factors = fst r1 @ fst r2 @ fst r3 @ fst r4;
                risk_score = snd r1 + snd r2 + snd r3 + snd r4;
                risk_level0 = risk_level_of risk_score
            in Inr [(''property_price'', PFloat pr),
                    (''monthly_rent'', PFloat monthly_rent0),
                    (''annual_rent'', PFloat annual_rent0),
                    (''down_payment'', PFloat down_payment),
                    (''down_payment_percentage'', PFloat (down_payment_percentage * 100)),
                    (''loan_amount'', PFloat loan_amount),
                    (''interest_rate'', PFloat (interest_rate * 100)),
                    (''loan_term_years'', PInt loan_term_years),
                    (''monthly_mortgage_payment'', PFloat monthly_mortgage_payment),
                    (''annual_mortgage_payment'', PFloat (monthly_mortgage_payment * 12)),
                    (''monthly_property_tax'', PFloat property_tax),
                    (''annual_property_tax'', PFloat (property_tax * 12)),
                    (''monthly_insurance'', PFloat insurance),
                    (''annual_insurance'', PFloat (insurance * 12)),
                    (''monthly_vacancy_cost'', PFloat vacancy_cost),
                    (''annual_vacancy_cost'', PFloat (vacancy_cost * 12)),
                    (''monthly_maintenance'', PFloat maintenance),
                    (''annual_maintenance'', PFloat (maintenance * 12)),
                    (''monthly_property_management'', PFloat property_management),
                    (''annual_property_management'', PFloat (property_management * 12)),
                    (''total_monthly_expenses'', PFloat total_monthly_expenses),
                    (''total_annual_expenses'', PFloat (total_monthly_expenses * 12)),
                    (''monthly_noi'', PFloat monthly_noi),
                    (''annual_noi'', PFloat annual_noi),
                    (''monthly_cash_flow'', PFloat monthly_cash_flow),
                    (''annual_cash_flow'', PFloat annual_cash_flow),
                    (''cap_rate'', PFloat cap_rate0),
                    (''rental_yield'', PFloat rental_yield0),
                    (''cash_on_cash_return'', PFloat cash_on_cash_return),
                    (''gross_rent_multiplier'', PFloat gross_rent_multiplier),
                    (''debt_service_coverage_ratio'', debt_service_coverage_ratio),
                    (''price_to_rent_ratio'', PFloat price_to_rent_ratio0),
                    (''break_even_ratio'', break_even_ratio),
                    (''operating_expense_ratio'', operating_expense_ratio),
                    (''one_percent_rule_value'', PFloat one_percent_rule_value),
                    (''one_percent_rule_passed'', PBool one_percent_rule_passed),
                    (''risk_score'', PInt risk_score),
                    (''risk_level'', PStr risk_level0),
                    (''risk_factors'', PList risk_factors)])))"

definition calculate_metrics ::
  "property \<Rightarrow> real \<Rightarrow> real option \<Rightarrow> int \<Rightarrow> py_error + pydict" where
  "calculate_metrics property_data down_payment_percentage interest_rate_opt loan_term_years =
     (let interest_rate =
            (case interest_rate_opt of None \<Rightarrow> DEFAULT_MORTGAGE_INTEREST_RATE | Some r \<Rightarrow> r);
          annual_rent0 = effective_annual_rent property_data
      in if falsy (price property_data) \<or> the (price property_data) \<le> 0
         then Inr [(''error'', PStr MISSING_PRICE)]
         else if falsy annual_rent0
         then partial_metrics (the (price property_data)) down_payment_percentage
                interest_rate loan_term_years
         else full_metrics (the (price property_data))
                (if falsy (monthly_rent property_data) then the annual_rent0 / 12
                 else the (monthly_rent property_data))
                (the annual_rent0) down_payment_percentage interest_rate loan_term_years)"

text \<open>\<open>d[k]\<close> raises on a missing key; arithmetic on an entry needs a finite number.\<close>

definition dict_item :: "pydict \<Rightarrow> string \<Rightarrow> py_error + pyval" where
  "dict_item d k = (case map_of d k of None \<Rightarrow> Inl KeyError | Some v \<Rightarrow> Inr v)"

definition as_num :: "pyval \<Rightarrow> py_error + real" where
  "as_num v = (case v of PFloat x \<Rightarrow> Inr x | PInt i \<Rightarrow> Inr (of_int i)
                 | PBool b \<Rightarrow> Inr (if b then 1 else 0) | _ \<Rightarrow> Inl TypeError)"

definition num_item :: "pydict \<Rightarrow> string \<Rightarrow> py_error + real" where
  "num_item d k = bind_err (dict_item d k) as_num"

definition calculate_multiple_scenarios :: "property \<Rightarrow> py_error + pydict" where
  "calculate_multiple_scenarios property_data =
     bind_err (calculate_metrics property_data (20 / 100) None 30) (\<lambda>m20.
     bind_err (calculate_metrics property_data (25 / 100) None 30) (\<lambda>m25.
     bind_err (calculate_metrics property_data (30 / 100) None 30) (\<lambda>m30.
       Inr [(''20%_down_payment'', PDict m20),
            (''25%_down_payment'', PDict m25),
            (''30%_down_payment'', PDict m30)])))"

text \<open>
  \<open>perform_stress_test\<close>. \<open>Property(**vars(property_data))\<close> builds a new record from the
  fields of the old one, which runs \<open>__post_init__\<close> again. The rent used for the
  adjustments is read from the argument itself, and multiplying \<open>None\<close> raises.
\<close>

definition perform_stress_test :: "property \<Rightarrow> py_error + pydict" where
  "perform_stress_test property_data =
     bind_err (calculate_metrics property_data (2 / 10) None 30) (\<lambda>base_metrics.
     if dict_has base_metrics ''error''
     then Inr [(''error'', dict_get base_metrics ''error'' PNone)]
     else
       let vacancy_property = post_init property_data in
       bind_err (calculate_metrics vacancy_property (2 / 10) None 30) (\<lambda>vacancy_test_metrics.
       bind_err (num_item vacancy_test_metrics ''monthly_cash_flow'') (\<lambda>vacancy_cf.
       bind_err (case monthly_rent property_data of None \<Rightarrow> Inl TypeError | Some r \<Rightarrow> Inr r)
       (\<lambda>monthly_rent0.
       let vacancy_adjusted_cash_flow = vacancy_cf - (monthly_rent0 * DEFAULT_VACANCY_RATE);
           increased_vacancy =
             [(''scenario'', PStr ''Vacancy rate increased to 10.0%''),
              (''monthly_cash_flow'', PFloat vacancy_adjusted_cash_flow),
              (''annual_cash_flow'', PFloat (vacancy_adjusted_cash_flow * 12)),
              (''still_profitable'', PBool (vacancy_adjusted_cash_flow > 0))]
       in
       bind_err (calculate_metrics property_data (2 / 10)
                   (Some (DEFAULT_MORTGAGE_INTEREST_RATE + 2 / 100)) 30)
       (\<lambda>higher_interest_metrics.
       bind_err (dict_item higher_interest_metrics ''monthly_mortgage_payment'') (\<lambda>hi_mmp.
       bind_err (dict_item higher_interest_metrics ''monthly_cash_flow'') (\<lambda>hi_cf.
       bind_err (dict_item higher_interest_metrics ''annual_cash_flow'') (\<lambda>hi_acf.
       bind_err (num_item higher_interest_metrics ''monthly_cash_flow'') (\<lambda>hi_cf_num.
       let interest_rate_increase =
             [(''scenario'', PStr ''Interest rate increased to 7.5%''),
              (''monthly_mortgage_payment'', hi_mmp),
              (''monthly_cash_flow'', hi_cf),
              (''annual_cash_flow'', hi_acf),
              (''still_profitable'', PBool (hi_cf_num > 0))];
           combined_property = post_init property_data
       in
       bind_err (calculate_metrics combined_property (2 / 10)
                   (Some (DEFAULT_MORTGAGE_INTEREST_RATE + 2 / 100)) 30)
       (\<lambda>combined_metrics.
       let vacancy_impact = monthly_rent0 * DEFAULT_VACANCY_RATE;
           maintenance_impact = monthly_rent0 * (DEFAULT_MAINTENANCE_RATE * (1 / 2))
       in
       bind_err (num_item combined_metrics ''monthly_cash_flow'') (\<lambda>combined_cf.
       let combined_adjusted_cash_flow = combined_cf - vacancy_impact - maintenance_impact;
           combined_stress =
             [(''scenario'',
               PStr ''Combined stress: Higher vacancy, interest rate, and maintenance''),
              (''monthly_cash_flow'', PFloat combined_adjusted_cash_flow),
              (''annual_cash_flow'', PFloat (combined_adjusted_cash_flow * 12)),
              (''still_profitable'', PBool (combined_adjusted_cash_flow > 0))];
           summary =
             [(''passed_all_tests'',
               PBool (vacancy_adjusted_cash_flow > 0 \<and> hi_cf_num > 0
                      \<and> combined_adjusted_cash_flow > 0)),
              (''worst_case_monthly_cash_flow'', PFloat combined_adjusted_cash_flow)]
       in Inr [(''increased_vacancy'', PDict increased_vacancy),
               (''interest_rate_increase'', PDict interest_rate_increase),
               (''combined_stress'', PDict combined_stress),
               (''summary'', PDict summary)])))))))))))"

text \<open>A record with every optional field empty, and the example of the specification.\<close>

definition blank_property :: property where
  "blank_property =
     \<lparr>property_id = ''1'', source = ''Zillow'', property_url = [], property_type = ''house'',
      address = [], city = [], state = [], zip_code = [],
      price = None, bedrooms = None, bathrooms = None, square_feet = None, year_built = None,
      monthly_rent = None, annual_rent = None, rental_yield = None, cap_rate = None,
      price_to_rent_ratio = None, risk_level = None, financial_metrics = []\<rparr>"

definition example_property :: property where
  "example_property = post_init (blank_property\<lparr>price := Some 300000, monthly_rent := Some 2000\<rparr>)"

text \<open>
  Reading the monthly cash flow of one scenario out of a stress-test result, and the
  cash flow that \<open>calculate_metrics\<close> computes from price, rent and mortgage payment.
\<close>

definition stress_cash_flow :: "pydict \<Rightarrow> string \<Rightarrow> py_error + real" where
  "stress_cash_flow st name =
     bind_err (dict_item st name)
       (\<lambda>d. case d of PDict m \<Rightarrow> num_item m ''monthly_cash_flow'' | _ \<Rightarrow> Inl TypeError)"

definition total_expenses_of :: "real \<Rightarrow> real \<Rightarrow> real" where
  "total_expenses_of pr mr =
     pr * DEFAULT_PROPERTY_TAX_RATE / 12 + pr * DEFAULT_INSURANCE_RATE / 12
       + mr * DEFAULT_VACANCY_RATE + mr * DEFAULT_MAINTENANCE_RATE
       + mr * DEFAULT_MANAGEMENT_FEE_RATE"

definition cash_flow_of :: "real \<Rightarrow> real \<Rightarrow> real \<Rightarrow> real" where
  "cash_flow_of pr mr m = mr - m - total_expenses_of pr mr"

section \<open>utils/data_aggregator.py\<close>

subsection \<open>Strings\<close>

text \<open>\<open>str.lower\<close> on ASCII letters, and the substring test \<open>needle in haystack\<close>.\<close>

definition lower_char :: "char \<Rightarrow> char" where
  "lower_char c =
     (if CHR ''A'' \<le> c \<and> c \<le> CHR ''Z'' then char_of (of_char c + (32::nat)) else c)"

definition lower :: "string \<Rightarrow> string" where
  "lower s = map lower_char s"

fun is_substring :: "string \<Rightarrow> string \<Rightarrow> bool" where
  "is_substring needle [] = (needle = [])"
| "is_substring needle (c # cs) = (prefix needle (c # cs) \<or> is_substring needle cs)"

definition matches_type :: "string list \<Rightarrow> property \<Rightarrow> bool" where
  "matches_type property_types p =
     (property_type p \<noteq> [] \<and>
      list_ex (\<lambda>pt. is_substring pt (lower (property_type p))) (map lower property_types))"

subsection \<open>fetch_properties\<close>

text \<open>
  A scraper's \<open>search_properties\<close> either returns records or raises; its outcome is a
  parameter. \<open>_fetch_from_zillow\<close> and \<open>_fetch_from_loopnet\<close> turn a raise into the
  empty list. The loop over \<open>as_completed\<close> extends the result by each future's records
  and skips a future whose \<open>result()\<close> raises. The order in which the two futures
  complete is the parameter \<open>zillow_first\<close>.
\<close>

definition fetch_from_zillow :: "py_error + property list \<Rightarrow> py_error + property list" where
  "fetch_from_zillow search_result =
     (case search_result of Inl e \<Rightarrow> Inr [] | Inr properties \<Rightarrow> Inr properties)"

definition fetch_from_loopnet :: "py_error + property list \<Rightarrow> py_error + property list" where
  "fetch_from_loopnet search_result =
     (case search_result of Inl e \<Rightarrow> Inr [] | Inr properties \<Rightarrow> Inr properties)"

fun collect :: "property list \<Rightarrow> (py_error + property list) list \<Rightarrow> property list" where
  "collect all_properties [] = all_properties"
| "collect all_properties (future # futures) =
     (case future of
        Inr properties \<Rightarrow> collect (all_properties @ properties) futures
      | Inl e \<Rightarrow> collect all_properties futures)"

definition type_filter :: "string list option \<Rightarrow> property list \<Rightarrow> property list" where
  "type_filter property_types all_properties =
     (case property_types of
        None \<Rightarrow> all_properties
      | Some pts \<Rightarrow> if pts = [] then all_properties
                    else filter (matches_type pts) all_properties)"

definition fetch_properties ::
  "py_error + property list \<Rightarrow> py_error + property list \<Rightarrow> bool \<Rightarrow> string list option
     \<Rightarrow> property list" where
  "fetch_properties zillow_search loopnet_search zillow_first property_types =
     (let futures = [fetch_from_zillow zillow_search, fetch_from_loopnet loopnet_search];
          completed = (if zillow_first then futures else rev futures)
      in type_filter property_types (collect [] completed))"

text \<open>The records an adapter delivered: none when its search raised.\<close>

definition records_of :: "py_error + property list \<Rightarrow> property list" where
  "records_of search_result = (case search_result of Inl e \<Rightarrow> [] | Inr ps \<Rightarrow> ps)"

subsection \<open>filter_properties\<close>

text \<open>
  The filter dictionary: every key is optional, and a key holding \<open>None\<close> counts as
  absent, so each entry is an option.
\<close>

record filter_spec =
  sources :: "string list option"
  property_types :: "string list option"
  min_price :: "real option"
  max_price :: "real option"
  min_bedrooms :: "real option"
  max_bedrooms :: "real option"
  min_rental_yield :: "real option"
  max_rental_yield :: "real option"
  min_cap_rate :: "real option"
  max_cap_rate :: "real option"
  min_square_feet :: "real option"
  max_square_feet :: "real option"
  min_year_built :: "real option"
  max_year_built :: "real option"
  min_cash_flow :: "real option"
  risk_levels :: "string list option"
  locations :: "string list option"

text \<open>\<open>value >= bound\<close> and \<open>value <= bound\<close> for a dictionary entry of any type.\<close>

definition py_ge :: "pyval \<Rightarrow> real \<Rightarrow> py_error + bool" where
  "py_ge v b = (case v of PFloat x \<Rightarrow> Inr (x \<ge> b) | PInt i \<Rightarrow> Inr (of_int i \<ge> b)
                  | PBool t \<Rightarrow> Inr ((if t then 1 else 0) \<ge> b) | PInf \<Rightarrow> Inr True
                  | _ \<Rightarrow> Inl TypeError)"

definition py_le :: "pyval \<Rightarrow> real \<Rightarrow> py_error + bool" where
  "py_le v b = (case v of PFloat x \<Rightarrow> Inr (x \<le> b) | PInt i \<Rightarrow> Inr (of_int i \<le> b)
                  | PBool t \<Rightarrow> Inr ((if t then 1 else 0) \<le> b) | PInf \<Rightarrow> Inr False
                  | _ \<Rightarrow> Inl TypeError)"

text \<open>The condition of each list comprehension, in source order.\<close>

definition in_sources :: "string list \<Rightarrow> property \<Rightarrow> py_error + bool" where
  "in_sources srcs p = Inr (source p \<in> set srcs)"

definition type_matches :: "string list \<Rightarrow> property \<Rightarrow> py_error + bool" where
  "type_matches pts p = Inr (matches_type pts p)"

definition field_ge :: "(property \<Rightarrow> real option) \<Rightarrow> real \<Rightarrow> property \<Rightarrow> py_error + bool" where
  "field_ge fld b p = Inr (truthy (fld p) \<and> the (fld p) \<ge> b)"

definition field_le :: "(property \<Rightarrow> real option) \<Rightarrow> real \<Rightarrow> property \<Rightarrow> py_error + bool" where
  "field_le fld b p = Inr (truthy (fld p) \<and> the (fld p) \<le> b)"

definition year_ge :: "real \<Rightarrow> property \<Rightarrow> py_error + bool" where
  "year_ge b p = Inr (truthy_int (year_built p) \<and> of_int (the (year_built p)) \<ge> b)"

definition year_le :: "real \<Rightarrow> property \<Rightarrow> py_error + bool" where
  "year_le b p = Inr (truthy_int (year_built p) \<and> of_int (the (year_built p)) \<le> b)"

definition cap_rate_ge :: "real \<Rightarrow> property \<Rightarrow> py_error + bool" where
  "cap_rate_ge b p =
     (if truthy (cap_rate p) \<and> the (cap_rate p) \<ge> b then Inr True
      else if financial_metrics p = [] then Inr False
      else py_ge (dict_get (financial_metrics p) ''cap_rate'' (PInt 0)) b)"

definition cap_rate_le :: "real \<Rightarrow> property \<Rightarrow> py_error + bool" where
  "cap_rate_le b p =
     (if truthy (cap_rate p) \<and> the (cap_rate p) \<le> b then Inr True
      else if financial_metrics p = [] then Inr False
      else py_le (dict_get (financial_metrics p) ''cap_rate'' (PInt 0)) b)"

definition cash_flow_ge :: "real \<Rightarrow> property \<Rightarrow> py_error + bool" where
  "cash_flow_ge b p =
     (if financial_metrics p = [] then Inr False
      else py_ge (dict_get (financial_metrics p) ''monthly_cash_flow'' (PInt 0)) b)"

definition risk_in :: "string list \<Rightarrow> property \<Rightarrow> py_error + bool" where
  "risk_in rls p =
     (let risk_levels_lower = map lower rls
      in if (case risk_level p of None \<Rightarrow> False
             | Some r \<Rightarrow> r \<noteq> [] \<and> lower r \<in> set risk_levels_lower)
         then Inr True
         else if financial_metrics p = [] then Inr False
         else (case dict_get (financial_metrics p) ''risk_level'' (PStr []) of
                 PStr r \<Rightarrow> Inr (lower r \<in> set risk_levels_lower)
               | _ \<Rightarrow> Inl AttributeError))"

definition location_in :: "string list \<Rightarrow> property \<Rightarrow> py_error + bool" where
  "location_in locs p =
     (let locations_lower = map lower locs
      in Inr ((city p \<noteq> [] \<and> lower (city p) \<in> set locations_lower)
              \<or> (state p \<noteq> [] \<and> lower (state p) \<in> set locations_lower)
              \<or> (zip_code p \<noteq> [] \<and> zip_code p \<in> set locs)))"

text \<open>
  One list comprehension: the condition is evaluated record by record, and the first
  exception ends the whole call.
\<close>

fun filter_stage :: "(property \<Rightarrow> py_error + bool) \<Rightarrow> property list \<Rightarrow> py_error + property list"
  where
  "filter_stage c [] = Inr []"
| "filter_stage c (p # ps) =
     (case c p of
        Inl e \<Rightarrow> Inl e
      | Inr keep \<Rightarrow> (case filter_stage c ps of
                      Inl e \<Rightarrow> Inl e
                    | Inr rest \<Rightarrow> Inr (if keep then p # rest else rest)))"

text \<open>
  The guards of the function: a numeric filter runs when its key holds a value, a list
  filter when its key holds a non-empty list. A stage that does not run is \<open>None\<close>.
\<close>

definition num_stage ::
  "real option \<Rightarrow> (real \<Rightarrow> property \<Rightarrow> py_error + bool) \<Rightarrow> (property \<Rightarrow> py_error + bool) option"
  where
  "num_stage bound c = (case bound of None \<Rightarrow> None | Some b \<Rightarrow> Some (c b))"

definition list_stage ::
  "string list option \<Rightarrow> (string list \<Rightarrow> property \<Rightarrow> py_error + bool)
     \<Rightarrow> (property \<Rightarrow> py_error + bool) option" where
  "list_stage allowed c =
     (case allowed of None \<Rightarrow> None | Some xs \<Rightarrow> if xs = [] then None else Some (c xs))"

definition filter_stages :: "filter_spec \<Rightarrow> (property \<Rightarrow> py_error + bool) option list" where
  "filter_stages filters =
     [list_stage (sources filters) in_sources,
      list_stage (property_types filters) type_matches,
      num_stage (min_price filters) (field_ge price),
      num_stage (max_price filters) (field_le price),
      num_stage (min_bedrooms filters) (field_ge bedrooms),
      num_stage (max_bedrooms filters) (field_le bedrooms),
      num_stage (min_rental_yield filters) (field_ge rental_yield),
      num_stage (max_rental_yield filters) (field_le rental_yield),
      num_stage (min_cap_rate filters) cap_rate_ge,
      num_stage (max_cap_rate filters) cap_rate_le,
      num_stage (min_square_feet filters) (field_ge square_feet),
      num_stage (max_square_feet filters) (field_le square_feet),
      num_stage (min_year_built filters) year_ge,
      num_stage (max_year_built filters) year_le,
      num_stage (min_cash_flow filters) cash_flow_ge,
      list_stage (risk_levels filters) risk_in,
      list_stage (locations filters) location_in]"

fun run_stages ::
  "(property \<Rightarrow> py_error + bool) option list \<Rightarrow> property list \<Rightarrow> py_error + property list"
  where
  "run_stages [] filtered_properties = Inr filtered_properties"
| "run_stages (None # stages) filtered_properties = run_stages stages filtered_properties"
| "run_stages (Some c # stages) filtered_properties =
     (case filter_stage c filtered_properties of
        Inl e \<Rightarrow> Inl e
      | Inr kept \<Rightarrow> run_stages stages kept)"

definition filter_properties :: "property list \<Rightarrow> filter_spec \<Rightarrow> py_error + property list" where
  "filter_properties properties filters = run_stages (filter_stages filters) properties"

definition no_filters :: filter_spec where
  "no_filters =
     \<lparr>sources = None, property_types = None, min_price = None, max_price = None,
      min_bedrooms = None, max_bedrooms = None, min_rental_yield = None,
      max_rental_yield = None, min_cap_rate = None, max_cap_rate = None,
      min_square_feet = None, max_square_feet = None, min_year_built = None,
      max_year_built = None, min_cash_flow = None, risk_levels = None, locations = None\<rparr>"

text \<open>
  A listing without rent data, as the application stores it: its \<open>financial_metrics\<close> is
  the partial dictionary, which has no \<open>cap_rate\<close> and no \<open>monthly_cash_flow\<close>.
\<close>

definition no_rent_listing :: property where
  "no_rent_listing =
     blank_property\<lparr>price := Some 300000,
       financial_metrics :=
         [(''error'', PStr MISSING_RENT), (''down_payment'', PFloat 60000),
          (''loan_amount'', PFloat 240000), (''monthly_mortgage_payment'', PFloat 1000)]\<rparr>"

section \<open>utils/cache_utils.py\<close>

text \<open>
  A cached value is any Python value, \<open>None\<close> included: \<open>'v option\<close>, with \<open>None\<close>
  for Python's \<open>None\<close>. \<open>time.time()\<close> is the parameter \<open>now\<close>. A store maps a key (or
  a file path) to the pair of value and expiry instant.
\<close>

type_synonym 'v store = "string \<Rightarrow> ('v option \<times> real) option"

definition MemoryCache_get :: "'v store \<Rightarrow> string \<Rightarrow> real \<Rightarrow> 'v option \<times> 'v store" where
  "MemoryCache_get cache key now =
     (case cache key of
        Some (val, expiry) \<Rightarrow>
          if expiry > now then (val, cache) else (None, cache(key := None))
      | None \<Rightarrow> (None, cache))"

definition MemoryCache_set :: "'v store \<Rightarrow> string \<Rightarrow> 'v option \<Rightarrow> int \<Rightarrow> real \<Rightarrow> 'v store" where
  "MemoryCache_set cache key val ttl now = cache(key \<mapsto> (val, now + of_int ttl))"

text \<open>
  The disk tier keeps one file per key, named by the MD5 digest of the key; the digest
  function is the parameter \<open>md5\<close>. A file holds a pickled pair of value and expiry,
  or what a failed \<open>pickle.dump\<close> left behind after \<open>open(path, 'wb')\<close> had truncated
  it: nothing, or the beginning of a pickle. Cached values are taken to be picklable.
\<close>

datatype 'v disk_file = Pickled "'v option" real | EmptyFile | PartialFile

type_synonym 'v files = "string \<Rightarrow> 'v disk_file option"

text \<open>
  How the \<open>try\<close> block of \<open>set\<close> went: the pair was written; \<open>open\<close> raised and the
  file was not touched; or the dump raised a pickle or I/O error after \<open>open\<close>, leaving
  the file empty or partly written. The handler only logs.
\<close>

datatype write_result = Written | OpenFailed | DumpFailedEmpty | DumpFailedPartial

definition CACHE_DIR :: string where
  "CACHE_DIR = ''.cache''"

definition get_cache_path :: "(string \<Rightarrow> string) \<Rightarrow> string \<Rightarrow> string" where
  "get_cache_path md5 key = CACHE_DIR @ ''/'' @ md5 key @ ''.cache''"

text \<open>
  \<open>get\<close>: \<open>read_ok\<close> says that the operating system raised no I/O error while the file
  was opened, read and, when expired, removed; such an error is caught and logged.
  Unpickling a partly written file raises a pickle error, which is caught as well;
  unpickling an empty file raises \<open>EOFError\<close>, which no handler catches.
\<close>

definition DiskCache_get ::
  "(string \<Rightarrow> string) \<Rightarrow> 'v files \<Rightarrow> string \<Rightarrow> real \<Rightarrow> bool
     \<Rightarrow> py_error + ('v option \<times> 'v files)" where
  "DiskCache_get md5 files key now read_ok =
     (let cache_path = get_cache_path md5 key
      in case files cache_path of
           None \<Rightarrow> Inr (None, files)
         | Some file \<Rightarrow>
             if \<not> read_ok then Inr (None, files)
             else (case file of
                     Pickled val expiry \<Rightarrow>
                       if expiry > now then Inr (val, files)
                       else Inr (None, files(cache_path := None))
                   | EmptyFile \<Rightarrow> Inl EOFError
                   | PartialFile \<Rightarrow> Inr (None, files)))"

definition DiskCache_set ::
  "(string \<Rightarrow> string) \<Rightarrow> 'v files \<Rightarrow> string \<Rightarrow> 'v option \<Rightarrow> int \<Rightarrow> real \<Rightarrow> write_result
     \<Rightarrow> 'v files" where
  "DiskCache_set md5 files key val ttl now written =
     (let cache_path = get_cache_path md5 key;
          expiry = now + of_int ttl
      in case written of
           Written \<Rightarrow> files(cache_path \<mapsto> Pickled val expiry)
         | OpenFailed \<Rightarrow> files
         | DumpFailedEmpty \<Rightarrow> files(cache_path \<mapsto> EmptyFile)
         | DumpFailedPartial \<Rightarrow> files(cache_path \<mapsto> PartialFile))"

text \<open>
  The key of a cached call: the function name, \<open>str\<close> of each positional argument and
  \<open>k=str(v)\<close> for the keyword arguments sorted by name, joined by a colon. \<open>str\<close> is
  Python's, a parameter here.
\<close>

fun join_colon :: "string list \<Rightarrow> string" where
  "join_colon [] = []"
| "join_colon [x] = x"
| "join_colon (x # y # ys) = x @ CHR '':'' # join_colon (y # ys)"

definition kw_part :: "('a \<Rightarrow> string) \<Rightarrow> string \<times> 'a \<Rightarrow> string" where
  "kw_part str kv = fst kv @ CHR ''='' # str (snd kv)"

definition key_parts ::
  "('a \<Rightarrow> string) \<Rightarrow> string \<Rightarrow> 'a list \<Rightarrow> (string \<times> 'a) list \<Rightarrow> string list" where
  "key_parts str func_name args kwargs =
     [func_name] @ map str args @ map (kw_part str) (sort_key fst kwargs)"

definition cache_key ::
  "('a \<Rightarrow> string) \<Rightarrow> string \<Rightarrow> 'a list \<Rightarrow> (string \<times> 'a) list \<Rightarrow> string" where
  "cache_key str func_name args kwargs = join_colon (key_parts str func_name args kwargs)"

text \<open>
  The wrapper around a cached function. \<open>result\<close> is what the wrapped function returns
  if it is called now; the third component of the answer says whether it was called.
  The lookup happens at \<open>now\<close>, the store after the call at \<open>later\<close>.
\<close>

definition memory_wrapper ::
  "'v store \<Rightarrow> string \<Rightarrow> int \<Rightarrow> real \<Rightarrow> real \<Rightarrow> 'v option \<Rightarrow> 'v option \<times> 'v store \<times> bool"
  where
  "memory_wrapper cache cache_key0 ttl now later result =
     (case MemoryCache_get cache cache_key0 now of
        (Some cached_value, cache1) \<Rightarrow> (Some cached_value, cache1, False)
      | (None, cache1) \<Rightarrow> (result, MemoryCache_set cache1 cache_key0 result ttl later, True))"

definition disk_wrapper ::
  "(string \<Rightarrow> string) \<Rightarrow> 'v files \<Rightarrow> string \<Rightarrow> int \<Rightarrow> real \<Rightarrow> real \<Rightarrow> bool \<Rightarrow> write_result
     \<Rightarrow> 'v option \<Rightarrow> py_error + ('v option \<times> 'v files \<times> bool)" where
  "disk_wrapper md5 files cache_key0 ttl now later read_ok written result =
     (case DiskCache_get md5 files cache_key0 now read_ok of
        Inl e \<Rightarrow> Inl e
      | Inr (Some cached_value, files1) \<Rightarrow> Inr (Some cached_value, files1, False)
      | Inr (None, files1) \<Rightarrow>
          Inr (result, DiskCache_set md5 files1 cache_key0 result ttl later written, True))"

section \<open>Notions used to state the properties\<close>

text \<open>One numeric entry of the dictionary that \<open>calculate_metrics\<close> returns.\<close>

definition metric_of :: "property \<Rightarrow> real \<Rightarrow> real option \<Rightarrow> int \<Rightarrow> string \<Rightarrow> py_error + real" where
  "metric_of p down_payment_percentage interest_rate_opt loan_term_years k =
     bind_err (calculate_metrics p down_payment_percentage interest_rate_opt loan_term_years)
       (\<lambda>d. num_item d k)"

text \<open>The interest rate in force: the default when the argument is \<open>None\<close>.\<close>

definition rate_of :: "real option \<Rightarrow> real" where
  "rate_of interest_rate_opt =
     (case interest_rate_opt of None \<Rightarrow> DEFAULT_MORTGAGE_INTEREST_RATE | Some r \<Rightarrow> r)"

text \<open>A listing constructed with both rent fields, which do not agree.\<close>

definition inconsistent_rent_listing :: property where
  "inconsistent_rent_listing =
     post_init (blank_property\<lparr>price := Some 100000, monthly_rent := Some 2000,
                                annual_rent := Some 12000\<rparr>)"


text \<open>
  A run of calls of one cached function with the same arguments (hence the same key).
  Each call carries its TTL, the two instants, and what the wrapped function returns if
  it is called; the run yields, call by call, whether the function was called.
\<close>

fun memory_calls ::
  "'v store \<Rightarrow> string \<Rightarrow> (int \<times> real \<times> real \<times> 'v option) list \<Rightarrow> bool list" where
  "memory_calls cache k [] = []"
| "memory_calls cache k ((ttl, now, later, result) # rest) =
     (case memory_wrapper cache k ttl now later result of
        (ret, cache1, called) \<Rightarrow> called # memory_calls cache1 k rest)"

fun disk_calls ::
  "(string \<Rightarrow> string) \<Rightarrow> 'v files \<Rightarrow> string
     \<Rightarrow> (int \<times> real \<times> real \<times> bool \<times> write_result \<times> 'v option) list
     \<Rightarrow> py_error + bool list" where
  "disk_calls md5 files k [] = Inr []"
| "disk_calls md5 files k ((ttl, now, later, read_ok, written, result) # rest) =
     (case disk_wrapper md5 files k ttl now later read_ok written result of
        Inl e \<Rightarrow> Inl e
      | Inr (ret, files1, called) \<Rightarrow>
          (case disk_calls md5 files1 k rest of
             Inl e \<Rightarrow> Inl e
           | Inr flags \<Rightarrow> Inr (called # flags)))"

text \<open>
  No part of the key holds the separator, and no positional part holds the \<open>=\<close> that
  marks a keyword part.
\<close>

definition separator_free ::
  "('a \<Rightarrow> string) \<Rightarrow> string \<Rightarrow> 'a list \<Rightarrow> (string \<times> 'a) list \<Rightarrow> bool" where
  "separator_free str func_name args kwargs =
     (list_all (\<lambda>x. CHR '':'' \<notin> set x) (key_parts str func_name args kwargs)
      \<and> list_all (\<lambda>x. CHR ''='' \<notin> set x) (map str args))"

text \<open>The store holds nothing, or Python's \<open>None\<close>, under a key.\<close>

definition none_stored :: "'v store \<Rightarrow> string \<Rightarrow> bool" where
  "none_stored s k = (case s k of None \<Rightarrow> True | Some (v, e) \<Rightarrow> v = None)"

definition none_on_disk :: "'v files \<Rightarrow> string \<Rightarrow> bool" where
  "none_on_disk files path =
     (case files path of None \<Rightarrow> True | Some (Pickled v e) \<Rightarrow> v = None | Some _ \<Rightarrow> False)"

section \<open>The financial engine\<close>


lemmas rate_defs = DEFAULT_PROPERTY_TAX_RATE_def DEFAULT_INSURANCE_RATE_def
  DEFAULT_VACANCY_RATE_def DEFAULT_MAINTENANCE_RATE_def DEFAULT_MANAGEMENT_FEE_RATE_def
  DEFAULT_MORTGAGE_INTEREST_RATE_def DEFAULT_MORTGAGE_TERM_YEARS_def

lemma falsy_not_truthy [simp]: "falsy x \<longleftrightarrow> \<not> truthy x"
  by (simp add: falsy_def truthy_def split: option.splits)

lemmas post_init_defs = post_init_def post_init_yield_def post_init_ratio_def
  post_init_annual_def post_init_monthly_def

lemma float_max_bounds: "1 \<le> FLOAT_MAX" "2 ^ 1023 \<le> FLOAT_MAX"
  by (simp_all add: FLOAT_MAX_def)

lemma pow_in_range:
  assumes "1 < x" "x \<le> 2" "0 < k" "k \<le> 1023"
  shows "1 < x ^ k" "x ^ k \<le> FLOAT_MAX"
proof -
  from assms(1,3) show "1 < x ^ k" by (rule one_less_power)
  from assms(1,2) have "x ^ k \<le> 2 ^ k" by (intro power_mono) simp_all
  also from assms(4) have "(2::real) ^ k \<le> 2 ^ 1023" by (intro power_increasing) simp_all
  finally show "x ^ k \<le> FLOAT_MAX" using float_max_bounds(2) by simp
qed

lemma mortgage_formula:
  assumes "1 / 2 ^ 53 < r / 12" "r \<le> 12" "0 < n" "n \<le> 85"
  shows "calculate_mortgage_payment L r n =
           Inr (L * (r / 12 * (1 + r / 12) ^ nat (n * 12)) / ((1 + r / 12) ^ nat (n * 12) - 1))"
proof -
  let ?x = "1 + r / 12" and ?k = "nat (n * 12)"
  have "(0::real) < 1 / 2 ^ 53" by simp
  with assms(1) have c: "0 < r / 12" by linarith
  from assms(1) have f: "float_one_plus (r / 12) = ?x" by (simp add: float_one_plus_def)
  from c assms(2) have x: "1 < ?x" "?x \<le> 2" by simp_all
  from assms(3,4) have k: "0 < ?k" "?k \<le> 1023" by simp_all
  from assms(3) have p: "?x powi (n * 12) = ?x ^ ?k" by (simp add: power_int_def)
  note b = pow_in_range [OF x k]
  from b(1) have "\<bar>?x ^ ?k\<bar> = ?x ^ ?k" "?x ^ ?k \<noteq> 1" by simp_all
  with b(2) x(1) c show ?thesis
    unfolding calculate_mortgage_payment_def Let_def f math_pow_def p
    by (simp add: bind_err_def py_div_def)
qed

lemma mortgage_defined:
  assumes "1 / 2 ^ 53 < r / 12" "r \<le> 12" "0 < n" "n \<le> 85"
  shows "\<exists>m. calculate_mortgage_payment L r n = Inr m"
  using mortgage_formula [OF assms] by blast


lemma mortgage_zero_term: "calculate_mortgage_payment L r 0 = Inl ZeroDivisionError"
  using float_max_bounds(1)
  by (simp add: calculate_mortgage_payment_def py_div_def math_pow_def bind_err_def Let_def)

lemma calculate_metrics_no_rent:
  assumes "price p = Some pr" "0 < pr" "\<not> truthy (monthly_rent p)" "\<not> truthy (annual_rent p)"
  shows "calculate_metrics p dp ro n =
           bind_err (calculate_mortgage_payment (pr - pr * dp) (rate_of ro) n)
             (\<lambda>m. Inr [(''error'', PStr MISSING_RENT),
                        (''down_payment'', PFloat (pr * dp)),
                        (''loan_amount'', PFloat (pr - pr * dp)),
                        (''monthly_mortgage_payment'', PFloat m)])"
  using assms
  by (simp add: calculate_metrics_def effective_annual_rent_def partial_metrics_def truthy_def
      rate_of_def Let_def)

lemma calculate_metrics_with_rent:
  assumes "price p = Some pr" "0 < pr" "effective_annual_rent p = Some ar" "ar \<noteq> 0"
  shows "calculate_metrics p dp ro n =
           full_metrics pr (if truthy (monthly_rent p) then the (monthly_rent p) else ar / 12)
             ar dp (rate_of ro) n"
  using assms
  by (simp add: calculate_metrics_def truthy_def rate_of_def Let_def)

lemma full_metrics_ok:
  assumes "calculate_mortgage_payment (pr - pr * dp) r n = Inr m" "pr * dp \<noteq> 0"
  shows "\<exists>d. full_metrics pr mr ar dp r n = Inr d
           \<and> dict_has d ''error'' = False
           \<and> num_item d ''monthly_cash_flow'' = Inr (cash_flow_of pr mr m)
           \<and> dict_item d ''monthly_cash_flow'' = Inr (PFloat (cash_flow_of pr mr m))
           \<and> dict_item d ''annual_cash_flow'' = Inr (PFloat (cash_flow_of pr mr m * 12))
           \<and> dict_item d ''monthly_mortgage_payment'' = Inr (PFloat m)
           \<and> num_item d ''cap_rate'' = Inr ((mr - total_expenses_of pr mr) * 12 / pr * 100)
           \<and> num_item d ''rental_yield'' = Inr (ar / pr * 100)
           \<and> num_item d ''annual_noi'' = Inr ((mr - total_expenses_of pr mr) * 12)
           \<and> num_item d ''annual_rent'' = Inr ar
           \<and> num_item d ''monthly_rent'' = Inr mr
           \<and> num_item d ''total_monthly_expenses'' = Inr (total_expenses_of pr mr)"
  using assms
  by (simp add: full_metrics_def bind_err_def Let_def py_div_def num_item_def dict_item_def
      dict_has_def as_num_def cash_flow_of_def total_expenses_of_def)

lemma full_metrics_Inr:
  assumes "full_metrics pr mr ar dp r n = Inr d"
  shows "\<exists>m. calculate_mortgage_payment (pr - pr * dp) r n = Inr m \<and> pr * dp \<noteq> 0"
proof (cases "calculate_mortgage_payment (pr - pr * dp) r n")
  case (Inl e)
  with assms show ?thesis by (simp add: full_metrics_def bind_err_def Let_def)
next
  case (Inr m)
  have "pr * dp \<noteq> 0"
  proof
    assume "pr * dp = 0"
    then have "full_metrics pr mr ar dp r n = Inl ZeroDivisionError"
      unfolding full_metrics_def Let_def Inr bind_err_def py_div_def
      by (simp only: simp_thms if_True sum.case)
    with assms show False by simp
  qed
  with Inr show ?thesis by simp
qed


lemma calculate_metrics_Inr_full:
  assumes "calculate_metrics p dp ro n = Inr d" "dict_has d ''cap_rate''"
  shows "\<exists>pr mr ar. 0 < pr \<and> ar \<noteq> 0 \<and> full_metrics pr mr ar dp (rate_of ro) n = Inr d"
proof -
  have 1: "truthy (price p)" "0 < the (price p)"
    using assms by (auto simp: calculate_metrics_def dict_has_def Let_def split: if_splits)
  have 2: "truthy (effective_annual_rent p)"
  proof (rule ccontr)
    assume "\<not> truthy (effective_annual_rent p)"
    with 1 assms(1) have "partial_metrics (the (price p)) dp (rate_of ro) n = Inr d"
      by (simp add: calculate_metrics_def Let_def rate_of_def)
    with assms(2) show False
      by (auto simp: partial_metrics_def bind_err_def Let_def dict_has_def split: sum.splits)
  qed
  from 1 2 assms(1) have "full_metrics (the (price p))
         (if \<not> truthy (monthly_rent p) then the (effective_annual_rent p) / 12
          else the (monthly_rent p))
         (the (effective_annual_rent p)) dp (rate_of ro) n = Inr d"
    by (simp add: calculate_metrics_def Let_def rate_of_def)
  moreover from 2 have "the (effective_annual_rent p) \<noteq> 0"
    by (auto simp: truthy_def split: option.splits)
  ultimately show ?thesis using 1 by blast
qed

lemma metric_of_Inr:
  assumes "metric_of p dp ro n k = Inr x"
  shows "\<exists>d. calculate_metrics p dp ro n = Inr d \<and> num_item d k = Inr x"
  using assms by (cases "calculate_metrics p dp ro n") (simp_all add: metric_of_def bind_err_def)

lemma num_item_has: "num_item d k = Inr x \<Longrightarrow> dict_has d k"
  by (auto simp: num_item_def dict_item_def dict_has_def bind_err_def split: option.splits)

text \<open>
  Claim C8, amended. Whenever \<open>calculate_metrics\<close> returns the full metrics, cap rate and
  rental yield are equal exactly when the annual NOI equals the annual rent. When the
  annual rent the engine used is twelve times the monthly rent it used (as after
  normalisation from a single rent field), they are equal exactly when the total monthly
  expenses are zero, and the cap rate is strictly below the rental yield whenever the
  total monthly expenses are positive.
\<close>

theorem cap_rate_vs_rental_yield:
  assumes "metric_of p dp ro n ''cap_rate'' = Inr cr"
      and "metric_of p dp ro n ''rental_yield'' = Inr ry"
      and "metric_of p dp ro n ''annual_noi'' = Inr noi"
      and "metric_of p dp ro n ''annual_rent'' = Inr ar"
      and "metric_of p dp ro n ''monthly_rent'' = Inr mr"
      and "metric_of p dp ro n ''total_monthly_expenses'' = Inr te"
  shows "(cr = ry \<longleftrightarrow> noi = ar)
       \<and> (ar = 12 * mr \<longrightarrow> (cr = ry \<longleftrightarrow> te = 0) \<and> (0 < te \<longrightarrow> cr < ry))"
proof -
  from metric_of_Inr [OF assms(1)] obtain d where d: "calculate_metrics p dp ro n = Inr d"
    and cr: "num_item d ''cap_rate'' = Inr cr" by blast
  from calculate_metrics_Inr_full [OF d num_item_has [OF cr]] obtain pr mr0 ar0
    where pr: "0 < pr" and fm: "full_metrics pr mr0 ar0 dp (rate_of ro) n = Inr d" by blast
  from full_metrics_Inr [OF fm] obtain m
    where m: "calculate_mortgage_payment (pr - pr * dp) (rate_of ro) n = Inr m" "pr * dp \<noteq> 0"
    by blast
  from full_metrics_ok [OF m, of mr0 ar0] fm
  have v: "num_item d ''cap_rate'' = Inr ((mr0 - total_expenses_of pr mr0) * 12 / pr * 100)"
    "num_item d ''rental_yield'' = Inr (ar0 / pr * 100)"
    "num_item d ''annual_noi'' = Inr ((mr0 - total_expenses_of pr mr0) * 12)"
    "num_item d ''annual_rent'' = Inr ar0"
    "num_item d ''monthly_rent'' = Inr mr0"
    "num_item d ''total_monthly_expenses'' = Inr (total_expenses_of pr mr0)"
    by auto
  from assms d have w: "num_item d ''cap_rate'' = Inr cr" "num_item d ''rental_yield'' = Inr ry"
    "num_item d ''annual_noi'' = Inr noi" "num_item d ''annual_rent'' = Inr ar"
    "num_item d ''monthly_rent'' = Inr mr" "num_item d ''total_monthly_expenses'' = Inr te"
    by (simp_all add: metric_of_def bind_err_def)
  from v w have e: "cr = noi / pr * 100" "ry = ar / pr * 100" "noi = (mr - te) * 12"
    by simp_all
  from pr have "cr = ry \<longleftrightarrow> noi = ar" unfolding e(1,2) by simp
  moreover have "ar = 12 * mr \<longrightarrow> (cr = ry \<longleftrightarrow> te = 0) \<and> (0 < te \<longrightarrow> cr < ry)"
    using pr unfolding e by (auto simp: divide_strict_right_mono)
  ultimately show ?thesis by blast
qed


lemma example_property_eq:
  "example_property = blank_property\<lparr>price := Some 300000, monthly_rent := Some 2000,
     annual_rent := Some 24000, rental_yield := Some 8, price_to_rent_ratio := Some (25 / 2)\<rparr>"
  by (simp add: example_property_def blank_property_def post_init_defs truthy_def Let_def)

lemma post_init_example: "post_init example_property = example_property"
  by (simp add: example_property_eq blank_property_def post_init_defs truthy_def Let_def)

lemma calc_example:
  "calculate_metrics example_property dp ro n =
     full_metrics 300000 2000 24000 dp (rate_of ro) n"
  by (simp add: example_property_eq blank_property_def calculate_metrics_def
      effective_annual_rent_def truthy_def Let_def rate_of_def)

text \<open>
  Claim C1 says that \<open>calculate_metrics\<close> never raises, a loan term of zero years
  included. On the example property a term of zero years raises \<open>ZeroDivisionError\<close>
  (with the default rate and with a zero rate), a down payment of zero percent raises it
  in the cash-on-cash division, and so does a zero term on a listing without rent.
\<close>

theorem calculate_metrics_raises:
  "calculate_metrics example_property (2 / 10) None 0 = Inl ZeroDivisionError
   \<and> calculate_metrics example_property (2 / 10) (Some 0) 0 = Inl ZeroDivisionError
   \<and> calculate_metrics example_property 0 None 30 = Inl ZeroDivisionError
   \<and> calculate_metrics (blank_property\<lparr>price := Some 300000\<rparr>) (2 / 10) None 0
       = Inl ZeroDivisionError"
proof -
  have a: "full_metrics 300000 2000 24000 dp r 0 = Inl ZeroDivisionError" for dp r
    by (simp add: full_metrics_def mortgage_zero_term bind_err_def Let_def)
  obtain m where m: "calculate_mortgage_payment (300000 - 300000 * 0) (rate_of None) 30 = Inr m"
    using mortgage_defined [of "rate_of None" 30] by (auto simp: rate_of_def rate_defs)
  have b: "full_metrics 300000 2000 24000 0 (rate_of None) 30 = Inl ZeroDivisionError"
    unfolding full_metrics_def Let_def m bind_err_def py_div_def
    by (simp only: simp_thms if_True sum.case mult_zero_right)
  have c: "calculate_metrics (blank_property\<lparr>price := Some 300000\<rparr>) (2 / 10) None 0
       = Inl ZeroDivisionError"
    by (simp add: calculate_metrics_no_rent [where pr = 300000] blank_property_def truthy_def
        mortgage_zero_term bind_err_def)
  show ?thesis using a b c by (simp add: calc_example)
qed



text \<open>
  Claim C10. When each rent field of a property is \<open>None\<close> or exactly zero, construction
  derives nothing (the record is unchanged: no other rent field, no rental yield, no
  price-to-rent ratio), \<open>calculate_metrics\<close> answers as for the record with both rent
  fields absent, and with a positive price that answer is the partial missing-rent
  result.
\<close>

theorem zero_rent_treated_as_absent:
  assumes "monthly_rent p = None \<or> monthly_rent p = Some 0"
      and "annual_rent p = None \<or> annual_rent p = Some 0"
  shows "post_init p = p
       \<and> calculate_metrics (post_init p) dp ro n
           = calculate_metrics (p\<lparr>monthly_rent := None, annual_rent := None\<rparr>) dp ro n
       \<and> (\<forall>pr. price p = Some pr \<and> 0 < pr \<longrightarrow>
            calculate_metrics (post_init p) dp ro n =
              bind_err (calculate_mortgage_payment (pr - pr * dp) (rate_of ro) n)
                (\<lambda>m. Inr [(''error'', PStr MISSING_RENT),
                           (''down_payment'', PFloat (pr * dp)),
                           (''loan_amount'', PFloat (pr - pr * dp)),
                           (''monthly_mortgage_payment'', PFloat m)]))"
proof -
  from assms have f: "\<not> truthy (monthly_rent p)" "\<not> truthy (annual_rent p)"
    by (auto simp: truthy_def)
  then have pi: "post_init p = p" by (simp add: post_init_defs)
  have "calculate_metrics (post_init p) dp ro n =
              bind_err (calculate_mortgage_payment (pr - pr * dp) (rate_of ro) n)
                (\<lambda>m. Inr [(''error'', PStr MISSING_RENT),
                           (''down_payment'', PFloat (pr * dp)),
                           (''loan_amount'', PFloat (pr - pr * dp)),
                           (''monthly_mortgage_payment'', PFloat m)])"
    if "price p = Some pr" "0 < pr" for pr
    unfolding pi using that f by (rule calculate_metrics_no_rent)
  moreover have "calculate_metrics (post_init p) dp ro n
           = calculate_metrics (p\<lparr>monthly_rent := None, annual_rent := None\<rparr>) dp ro n"
    unfolding pi using f
    by (simp add: calculate_metrics_def effective_annual_rent_def truthy_def Let_def)
  ultimately show ?thesis using pi by blast
qed

text \<open>Claim C10 at a listing priced 300000 with a monthly rent of zero.\<close>

theorem zero_rent_treated_as_absent_witness:
  "post_init (blank_property\<lparr>price := Some 300000, monthly_rent := Some 0\<rparr>)
     = blank_property\<lparr>price := Some 300000, monthly_rent := Some 0\<rparr>
   \<and> calculate_metrics (post_init (blank_property\<lparr>price := Some 300000, monthly_rent := Some 0\<rparr>))
       (2 / 10) (Some 0) 30 =
     Inr [(''error'', PStr MISSING_RENT), (''down_payment'', PFloat 60000),
          (''loan_amount'', PFloat 240000), (''monthly_mortgage_payment'', PFloat (2000 / 3))]"
proof -
  let ?p = "blank_property\<lparr>price := Some 300000, monthly_rent := Some 0\<rparr>"
  have h1: "monthly_rent ?p = None \<or> monthly_rent ?p = Some 0" by simp
  have h2: "annual_rent ?p = None \<or> annual_rent ?p = Some 0" by (simp add: blank_property_def)
  note t = zero_rent_treated_as_absent [OF h1 h2, of "2 / 10" "Some 0" 30]
  from t have a: "post_init ?p = ?p" by blast
  have "price ?p = Some 300000 \<and> (0::real) < 300000" by simp
  with t have "calculate_metrics (post_init ?p) (2 / 10) (Some 0) 30 =
      bind_err (calculate_mortgage_payment (300000 - 300000 * (2 / 10)) (rate_of (Some 0)) 30)
        (\<lambda>m. Inr [(''error'', PStr MISSING_RENT),
                   (''down_payment'', PFloat (300000 * (2 / 10))),
                   (''loan_amount'', PFloat (300000 - 300000 * (2 / 10))),
                   (''monthly_mortgage_payment'', PFloat m)])"
    by blast
  then have "calculate_metrics (post_init ?p) (2 / 10) (Some 0) 30 =
     Inr [(''error'', PStr MISSING_RENT), (''down_payment'', PFloat 60000),
          (''loan_amount'', PFloat 240000), (''monthly_mortgage_payment'', PFloat (2000 / 3))]"
    by (simp add: rate_of_def calculate_mortgage_payment_def py_div_def bind_err_def)
  with a show ?thesis by blast
qed

lemma inconsistent_rent_listing_eq:
  "inconsistent_rent_listing = blank_property\<lparr>price := Some 100000, monthly_rent := Some 2000,
     annual_rent := Some 12000, rental_yield := Some 12, price_to_rent_ratio := Some (25 / 3)\<rparr>"
  by (simp add: inconsistent_rent_listing_def blank_property_def post_init_defs truthy_def Let_def)

lemma metric_of_full:
  assumes "calculate_metrics p dp ro n = full_metrics pr mr ar dp (rate_of ro) n"
      and "calculate_mortgage_payment (pr - pr * dp) (rate_of ro) n = Inr m" "pr * dp \<noteq> 0"
  shows "metric_of p dp ro n ''cap_rate'' = Inr ((mr - total_expenses_of pr mr) * 12 / pr * 100)"
    and "metric_of p dp ro n ''rental_yield'' = Inr (ar / pr * 100)"
    and "metric_of p dp ro n ''annual_noi'' = Inr ((mr - total_expenses_of pr mr) * 12)"
    and "metric_of p dp ro n ''annual_rent'' = Inr ar"
    and "metric_of p dp ro n ''monthly_rent'' = Inr mr"
    and "metric_of p dp ro n ''total_monthly_expenses'' = Inr (total_expenses_of pr mr)"
  using full_metrics_ok [OF assms(2,3), of mr ar] assms(1)
  by (auto simp: metric_of_def bind_err_def)

text \<open>
  Claim C8 as stated fails on a listing constructed with \<open>monthly_rent = 2000\<close> and
  \<open>annual_rent = 12000\<close>: the total monthly expenses are positive, yet the cap rate
  (17.6) is above the rental yield (12).
\<close>

theorem cap_rate_above_yield_counterexample:
  "metric_of inconsistent_rent_listing (2 / 10) None 30 ''total_monthly_expenses'' = Inr (1600 / 3)
   \<and> metric_of inconsistent_rent_listing (2 / 10) None 30 ''cap_rate'' = Inr (88 / 5)
   \<and> metric_of inconsistent_rent_listing (2 / 10) None 30 ''rental_yield'' = Inr 12
   \<and> (0::real) < 1600 / 3 \<and> \<not> ((88 / 5 :: real) < 12)"
proof -
  have cm: "calculate_metrics inconsistent_rent_listing (2 / 10) None 30
        = full_metrics 100000 2000 12000 (2 / 10) (rate_of None) 30"
    by (simp add: inconsistent_rent_listing_eq blank_property_def calculate_metrics_def
        effective_annual_rent_def truthy_def Let_def rate_of_def)
  obtain m where m: "calculate_mortgage_payment (100000 - 100000 * (2 / 10)) (rate_of None) 30 = Inr m"
    using mortgage_defined [of "rate_of None" 30] by (auto simp: rate_of_def rate_defs)
  have nz: "(100000::real) * (2 / 10) \<noteq> 0" by simp
  note v = metric_of_full [OF cm m nz]
  show ?thesis
    unfolding v by (simp add: total_expenses_of_def rate_defs)
qed

text \<open>The amended claim C8 at the example property, with a zero interest rate.\<close>

theorem cap_rate_vs_rental_yield_witness:
  "metric_of example_property (2 / 10) (Some 0) 30 ''cap_rate'' = Inr (24 / 5)
   \<and> metric_of example_property (2 / 10) (Some 0) 30 ''rental_yield'' = Inr 8
   \<and> metric_of example_property (2 / 10) (Some 0) 30 ''total_monthly_expenses'' = Inr 800
   \<and> (24 / 5 :: real) < 8 \<and> (24 / 5 :: real) \<noteq> 8"
proof -
  have cm: "calculate_metrics example_property (2 / 10) (Some 0) 30
        = full_metrics 300000 2000 24000 (2 / 10) (rate_of (Some 0)) 30"
    by (rule calc_example)
  have m: "calculate_mortgage_payment (300000 - 300000 * (2 / 10)) (rate_of (Some 0)) 30
       = Inr (2000 / 3)"
    by (simp add: rate_of_def calculate_mortgage_payment_def py_div_def)
  have nz: "(300000::real) * (2 / 10) \<noteq> 0" by simp
  note v = metric_of_full [OF cm m nz]
  have e: "(2000 - total_expenses_of 300000 2000) * 12 / 300000 * 100 = 24 / 5"
    "(24000::real) / 300000 * 100 = 8" "total_expenses_of 300000 2000 = 800"
    by (simp_all add: total_expenses_of_def rate_defs)
  note w = v [unfolded e]
  from cap_rate_vs_rental_yield [OF w(1) w(2) w(3) w(4) w(5) w(6)]
  have "(24 / 5 :: real) < 8 \<and> (24 / 5 :: real) \<noteq> 8" by simp
  with w show ?thesis by simp
qed

lemma pow_bound: "(31 / 9 :: real) \<le> (2411 / 2400) ^ 360"
proof -
  have "(1::real) + of_nat 120 * (11 / 2400) \<le> (1 + 11 / 2400) ^ 120"
    by (rule Bernoulli_inequality) simp
  then have "(31 / 20 :: real) \<le> (2411 / 2400) ^ 120" by simp
  then have "(31 / 20 :: real) ^ 3 \<le> ((2411 / 2400) ^ 120) ^ 3"
    by (intro power_mono) simp_all
  also have "((2411 / 2400 :: real) ^ 120) ^ 3 = (2411 / 2400) ^ 360"
    by (simp add: power_mult [symmetric])
  finally show ?thesis by (simp add: power3_eq_cube)
qed

lemma mortgage_gap:
  assumes m1: "calculate_mortgage_payment 240000 (11 / 200) 30 = Inr m1"
      and m2: "calculate_mortgage_payment 240000 (3 / 40) 30 = Inr m2"
  shows "m1 \<le> m2 + 50"
proof -
  define p1 :: real where "p1 = (2411 / 2400) ^ 360"
  define p2 :: real where "p2 = (161 / 160) ^ 360"
  have p1: "31 / 9 \<le> p1" unfolding p1_def by (rule pow_bound)
  have p2: "1 < p2" unfolding p2_def by (intro one_less_power) simp_all
  have "m1 = 240000 * (11 / 200 / 12 * (1 + 11 / 200 / 12) ^ 360) / ((1 + 11 / 200 / 12) ^ 360 - 1)"
    using m1 mortgage_formula [of "11 / 200" 30 240000] by simp
  then have e1: "m1 = 1100 * p1 / (p1 - 1)" by (simp add: p1_def)
  have "m2 = 240000 * (3 / 40 / 12 * (1 + 3 / 40 / 12) ^ 360) / ((1 + 3 / 40 / 12) ^ 360 - 1)"
    using m2 mortgage_formula [of "3 / 40" 30 240000] by simp
  then have e2: "m2 = 1500 * p2 / (p2 - 1)" by (simp add: p2_def)
  from p1 have "m1 \<le> 1550" unfolding e1 by (simp add: field_simps)
  moreover from p2 have "1500 \<le> m2" unfolding e2 by (simp add: field_simps)
  ultimately show ?thesis by simp
qed

text \<open>
  Claim C7. For the example property (price 300000, monthly rent 2000) the stress test
  returns a result whose combined-stress monthly cash flow is at most the
  increased-vacancy one, which is at most the base monthly cash flow of
  \<open>calculate_metrics\<close> under the default parameters.
\<close>

theorem stress_test_example_monotone:
  "\<exists>st base c v b.
     perform_stress_test example_property = Inr st
     \<and> calculate_metrics example_property (2 / 10) None 30 = Inr base
     \<and> stress_cash_flow st ''combined_stress'' = Inr c
     \<and> stress_cash_flow st ''increased_vacancy'' = Inr v
     \<and> num_item base ''monthly_cash_flow'' = Inr b
     \<and> c \<le> v \<and> v \<le> b"
proof -
  let ?r1 = "rate_of None"
  let ?r2 = "rate_of (Some (DEFAULT_MORTGAGE_INTEREST_RATE + 2 / 100))"
  obtain m1 where m1: "calculate_mortgage_payment (300000 - 300000 * (2 / 10)) ?r1 30 = Inr m1"
    using mortgage_defined [of ?r1 30] by (auto simp: rate_of_def rate_defs)
  obtain m2 where m2: "calculate_mortgage_payment (300000 - 300000 * (2 / 10)) ?r2 30 = Inr m2"
    using mortgage_defined [of ?r2 30] by (auto simp: rate_of_def rate_defs)
  have gap: "m1 \<le> m2 + 50"
    using m1 m2 mortgage_gap [of m1 m2] by (simp add: rate_of_def rate_defs)
  obtain d1 where d1: "full_metrics 300000 2000 24000 (2 / 10) ?r1 30 = Inr d1"
    and d1e: "dict_has d1 ''error'' = False"
    and d1n: "num_item d1 ''monthly_cash_flow'' = Inr (cash_flow_of 300000 2000 m1)"
    using full_metrics_ok [OF m1, of 2000 24000] by auto
  obtain d2 where d2: "full_metrics 300000 2000 24000 (2 / 10) ?r2 30 = Inr d2"
    and d2n: "num_item d2 ''monthly_cash_flow'' = Inr (cash_flow_of 300000 2000 m2)"
    and d2i: "dict_item d2 ''monthly_cash_flow'' = Inr (PFloat (cash_flow_of 300000 2000 m2))"
             "dict_item d2 ''annual_cash_flow'' = Inr (PFloat (cash_flow_of 300000 2000 m2 * 12))"
             "dict_item d2 ''monthly_mortgage_payment'' = Inr (PFloat m2)"
    using full_metrics_ok [OF m2, of 2000 24000] by auto
  have cm1: "calculate_metrics example_property (2 / 10) None 30 = Inr d1"
    unfolding calc_example by (rule d1)
  have cm2: "calculate_metrics example_property (2 / 10)
               (Some (DEFAULT_MORTGAGE_INTEREST_RATE + 2 / 100)) 30 = Inr d2"
    unfolding calc_example by (rule d2)
  have mr: "monthly_rent example_property = Some 2000"
    by (simp add: example_property_eq blank_property_def)
  define c where "c = cash_flow_of 300000 2000 m2 - 2000 * DEFAULT_VACANCY_RATE
                       - 2000 * (DEFAULT_MAINTENANCE_RATE * (1 / 2))"
  define v where "v = cash_flow_of 300000 2000 m1 - 2000 * DEFAULT_VACANCY_RATE"
  have "\<exists>iv ir su cs cr sm. perform_stress_test example_property =
          Inr [(''increased_vacancy'',
                  PDict ((''scenario'', iv) # (''monthly_cash_flow'', PFloat v) # ir)),
               (''interest_rate_increase'', PDict su),
               (''combined_stress'',
                  PDict ((''scenario'', cs) # (''monthly_cash_flow'', PFloat c) # cr)),
               (''summary'', sm)]"
    unfolding perform_stress_test_def Let_def post_init_example cm1 cm2 mr
    by (simp add: bind_err_def d1e d1n d2n d2i c_def v_def)
  then obtain st where st: "perform_stress_test example_property = Inr st"
    and "stress_cash_flow st ''combined_stress'' = Inr c"
    and "stress_cash_flow st ''increased_vacancy'' = Inr v"
    by (auto simp: stress_cash_flow_def dict_item_def num_item_def as_num_def bind_err_def)
  moreover have "c \<le> v" "v \<le> cash_flow_of 300000 2000 m1"
    using gap by (simp_all add: c_def v_def cash_flow_of_def total_expenses_of_def rate_defs)
  ultimately show ?thesis using cm1 d1n by blast
qed

section \<open>The aggregator\<close>


lemma collect_concat: "collect acc futures = acc @ concat (map records_of futures)"
  by (induction futures arbitrary: acc) (auto simp: records_of_def split: sum.splits)

lemma records_of_fetch [simp]:
  "records_of (fetch_from_zillow z) = records_of z"
  "records_of (fetch_from_loopnet l) = records_of l"
  by (auto simp: records_of_def fetch_from_zillow_def fetch_from_loopnet_def split: sum.splits)

lemma set_type_filter_append:
  "set (type_filter pts (xs @ ys)) = set (type_filter pts (ys @ xs))"
  by (auto simp: type_filter_def split: option.splits)

text \<open>
  Claim C4. Whatever the two adapters do and in whichever order they complete,
  \<open>fetch_properties\<close> returns the concatenation, in completion order, of the records of
  the adapters that succeeded: all of them when no property type is asked for, and those
  whose type matches otherwise. An adapter that raises contributes no record and leaves
  the other adapter's records in place; when both raise the result is the empty list.
  The completion order changes the order of the result only.
\<close>

theorem fetch_properties_partial_failure:
  "fetch_properties z l zillow_first None =
       concat (map records_of (if zillow_first then [z, l] else [l, z]))
   \<and> fetch_properties z l zillow_first (Some pts) =
       (if pts = [] then concat (map records_of (if zillow_first then [z, l] else [l, z]))
        else filter (matches_type pts)
               (concat (map records_of (if zillow_first then [z, l] else [l, z]))))
   \<and> fetch_properties (Inl e) (Inr ls) zillow_first None = ls
   \<and> fetch_properties (Inr zs) (Inl e) zillow_first None = zs
   \<and> fetch_properties (Inr zs) (Inr ls) zillow_first None
       = (if zillow_first then zs @ ls else ls @ zs)
   \<and> fetch_properties (Inl e) (Inr ls) zillow_first (Some pts)
       = (if pts = [] then ls else filter (matches_type pts) ls)
   \<and> fetch_properties (Inr zs) (Inl e) zillow_first (Some pts)
       = (if pts = [] then zs else filter (matches_type pts) zs)
   \<and> fetch_properties (Inl e) (Inl e') zillow_first any_types = []
   \<and> set (fetch_properties z l True any_types) = set (fetch_properties z l False any_types)"
proof -
  have 1: "fetch_properties z l zf ts =
       type_filter ts (concat (map records_of (if zf then [z, l] else [l, z])))" for z l zf ts
    by (simp add: fetch_properties_def collect_concat Let_def)
  have 2: "records_of (Inl e) = []" "records_of (Inr xs) = xs" for e xs
    by (simp_all add: records_of_def)
  have 3: "type_filter ts [] = []" for ts by (simp add: type_filter_def split: option.splits)
  have 4: "type_filter None xs = xs"
    "type_filter (Some pts) xs = (if pts = [] then xs else filter (matches_type pts) xs)" for xs
    by (simp_all add: type_filter_def)
  have 5: "set (fetch_properties z l True any_types) = set (fetch_properties z l False any_types)"
    using set_type_filter_append [of any_types "records_of z" "records_of l"] by (simp add: 1)
  have 6: "fetch_properties (Inl e) (Inl e') zillow_first any_types = []"
    by (simp add: 1 2 3)
  from 5 6 show ?thesis by (simp add: 1 2 4)
qed

text \<open>
  Claim C4 with the Zillow adapter failing and LoopNet delivering a house and an office:
  both come back when no type is asked for, only the office when \<open>OFFICE\<close> is. With
  both adapters delivering, the result is the one list after the other.
\<close>

theorem fetch_properties_partial_failure_witness:
  "fetch_properties (Inl AdapterError)
      (Inr [blank_property, blank_property\<lparr>property_type := ''Office Building''\<rparr>]) True None
     = [blank_property, blank_property\<lparr>property_type := ''Office Building''\<rparr>]
   \<and> fetch_properties (Inl AdapterError)
      (Inr [blank_property, blank_property\<lparr>property_type := ''Office Building''\<rparr>]) True
      (Some [''OFFICE''])
     = [blank_property\<lparr>property_type := ''Office Building''\<rparr>]
   \<and> fetch_properties (Inr [blank_property])
      (Inr [blank_property\<lparr>property_type := ''Office Building''\<rparr>]) False None
     = [blank_property\<lparr>property_type := ''Office Building''\<rparr>, blank_property]"
proof -
  let ?office = "blank_property\<lparr>property_type := ''Office Building''\<rparr>"
  have l: "lower ''OFFICE'' = ''office''" "lower ''Office Building'' = ''office building''"
    "lower ''house'' = ''house''"
    by code_simp+
  have m: "matches_type [''OFFICE''] ?office" "\<not> matches_type [''OFFICE''] blank_property"
    by (simp_all add: matches_type_def blank_property_def l)
  note t1 = fetch_properties_partial_failure
      [of "Inl AdapterError" "Inr [blank_property, ?office]" True "[''OFFICE'']" AdapterError
          "[blank_property, ?office]" "[blank_property]" AdapterError None]
  note t2 = fetch_properties_partial_failure
      [of "Inr [blank_property]" "Inr [?office]" False "[''OFFICE'']" AdapterError
          "[?office]" "[blank_property]" AdapterError None]
  from t1 have a: "fetch_properties (Inl AdapterError) (Inr [blank_property, ?office]) True None
      = [blank_property, ?office]" by blast
  from t1 have "fetch_properties (Inl AdapterError) (Inr [blank_property, ?office]) True
      (Some [''OFFICE''])
      = (if [''OFFICE''] = [] then [blank_property, ?office]
         else filter (matches_type [''OFFICE'']) [blank_property, ?office])" by blast
  with m have b: "fetch_properties (Inl AdapterError) (Inr [blank_property, ?office]) True
      (Some [''OFFICE'']) = [?office]" by simp
  from t2 have "fetch_properties (Inr [blank_property]) (Inr [?office]) False None
      = (if False then [blank_property] @ [?office] else [?office] @ [blank_property])" by blast
  then have c: "fetch_properties (Inr [blank_property]) (Inr [?office]) False None
      = [?office, blank_property]" by simp
  from a b c show ?thesis by blast
qed

lemma filter_stage_eq:
  "filter_stage c ps = Inr rs \<Longrightarrow> rs = filter (\<lambda>p. c p = Inr True) ps"
proof (induction ps arbitrary: rs)
  case Nil
  then show ?case by simp
next
  case (Cons p ps)
  then show ?case by (auto split: sum.splits if_splits)
qed

lemma run_stages_sound:
  assumes "run_stages cs ps = Inr rs" "p \<in> set rs"
  shows "p \<in> set ps \<and> (\<forall>c. Some c \<in> set cs \<longrightarrow> c p = Inr True)"
  using assms
proof (induction cs ps arbitrary: rs rule: run_stages.induct)
  case (1 filtered_properties)
  then show ?case by simp
next
  case (2 stages filtered_properties)
  then show ?case by simp
next
  case (3 c stages filtered_properties)
  from "3.prems"(1) obtain kept where k: "filter_stage c filtered_properties = Inr kept"
    and r: "run_stages stages kept = Inr rs"
    by (auto split: sum.splits)
  from "3.IH" [OF k r "3.prems"(2)]
  have "p \<in> set kept" and a: "\<forall>c. Some c \<in> set stages \<longrightarrow> c p = Inr True" by blast+
  with filter_stage_eq [OF k] have "p \<in> set filtered_properties" "c p = Inr True" by auto
  with a show ?case by auto
qed

lemma num_stage_in:
  "bound = Some b \<Longrightarrow> num_stage bound c = Some (c b)"
  by (simp add: num_stage_def)

lemma stage_passed:
  assumes "filter_properties ps f = Inr rs" "p \<in> set rs" "Some c \<in> set (filter_stages f)"
  shows "c p = Inr True"
  using run_stages_sound [OF assms(1) [unfolded filter_properties_def] assms(2)] assms(3)
  by blast

text \<open>
  Claim C2, amended. A record that \<open>filter_properties\<close> lets through has, for every
  supplied bound on price, bedrooms, rental yield, square feet or year built, a value of
  that field that is present, not zero and within the bound. For a supplied cap-rate
  bound it has such a direct \<open>cap_rate\<close>, or else a non-empty \<open>financial_metrics\<close> whose
  \<open>cap_rate\<close> entry, read as 0 when missing, meets the bound. For a supplied minimum
  cash flow it has a non-empty \<open>financial_metrics\<close> whose \<open>monthly_cash_flow\<close> entry,
  read as 0 when missing, meets the bound.
\<close>

theorem filter_excludes_missing_fields:
  assumes "filter_properties ps f = Inr rs" "p \<in> set rs"
  shows "(\<forall>b. min_price f = Some b \<longrightarrow> truthy (price p) \<and> b \<le> the (price p))
       \<and> (\<forall>b. max_price f = Some b \<longrightarrow> truthy (price p) \<and> the (price p) \<le> b)
       \<and> (\<forall>b. min_bedrooms f = Some b \<longrightarrow> truthy (bedrooms p) \<and> b \<le> the (bedrooms p))
       \<and> (\<forall>b. max_bedrooms f = Some b \<longrightarrow> truthy (bedrooms p) \<and> the (bedrooms p) \<le> b)
       \<and> (\<forall>b. min_rental_yield f = Some b \<longrightarrow>
             truthy (rental_yield p) \<and> b \<le> the (rental_yield p))
       \<and> (\<forall>b. max_rental_yield f = Some b \<longrightarrow>
             truthy (rental_yield p) \<and> the (rental_yield p) \<le> b)
       \<and> (\<forall>b. min_square_feet f = Some b \<longrightarrow>
             truthy (square_feet p) \<and> b \<le> the (square_feet p))
       \<and> (\<forall>b. max_square_feet f = Some b \<longrightarrow>
             truthy (square_feet p) \<and> the (square_feet p) \<le> b)
       \<and> (\<forall>b. min_year_built f = Some b \<longrightarrow>
             truthy_int (year_built p) \<and> b \<le> of_int (the (year_built p)))
       \<and> (\<forall>b. max_year_built f = Some b \<longrightarrow>
             truthy_int (year_built p) \<and> of_int (the (year_built p)) \<le> b)
       \<and> (\<forall>b. min_cap_rate f = Some b \<longrightarrow>
             (truthy (cap_rate p) \<and> b \<le> the (cap_rate p))
             \<or> (financial_metrics p \<noteq> []
                \<and> py_ge (dict_get (financial_metrics p) ''cap_rate'' (PInt 0)) b = Inr True))
       \<and> (\<forall>b. max_cap_rate f = Some b \<longrightarrow>
             (truthy (cap_rate p) \<and> the (cap_rate p) \<le> b)
             \<or> (financial_metrics p \<noteq> []
                \<and> py_le (dict_get (financial_metrics p) ''cap_rate'' (PInt 0)) b = Inr True))
       \<and> (\<forall>b. min_cash_flow f = Some b \<longrightarrow>
             financial_metrics p \<noteq> []
             \<and> py_ge (dict_get (financial_metrics p) ''monthly_cash_flow'' (PInt 0)) b = Inr True)"
proof -
  note sp = stage_passed [OF assms]
  have 1: "truthy (price p) \<and> b \<le> the (price p)" if "min_price f = Some b" for b
    using sp [of "field_ge price b"] that
    by (simp add: filter_stages_def num_stage_def field_ge_def)
  have 2: "truthy (price p) \<and> the (price p) \<le> b" if "max_price f = Some b" for b
    using sp [of "field_le price b"] that
    by (simp add: filter_stages_def num_stage_def field_le_def)
  have 3: "truthy (bedrooms p) \<and> b \<le> the (bedrooms p)" if "min_bedrooms f = Some b" for b
    using sp [of "field_ge bedrooms b"] that
    by (simp add: filter_stages_def num_stage_def field_ge_def)
  have 4: "truthy (bedrooms p) \<and> the (bedrooms p) \<le> b" if "max_bedrooms f = Some b" for b
    using sp [of "field_le bedrooms b"] that
    by (simp add: filter_stages_def num_stage_def field_le_def)
  have 5: "truthy (rental_yield p) \<and> b \<le> the (rental_yield p)"
    if "min_rental_yield f = Some b" for b
    using sp [of "field_ge rental_yield b"] that
    by (simp add: filter_stages_def num_stage_def field_ge_def)
  have 6: "truthy (rental_yield p) \<and> the (rental_yield p) \<le> b"
    if "max_rental_yield f = Some b" for b
    using sp [of "field_le rental_yield b"] that
    by (simp add: filter_stages_def num_stage_def field_le_def)
  have 7: "truthy (square_feet p) \<and> b \<le> the (square_feet p)"
    if "min_square_feet f = Some b" for b
    using sp [of "field_ge square_feet b"] that
    by (simp add: filter_stages_def num_stage_def field_ge_def)
  have 8: "truthy (square_feet p) \<and> the (square_feet p) \<le> b"
    if "max_square_feet f = Some b" for b
    using sp [of "field_le square_feet b"] that
    by (simp add: filter_stages_def num_stage_def field_le_def)
  have 9: "truthy_int (year_built p) \<and> b \<le> of_int (the (year_built p))"
    if "min_year_built f = Some b" for b
    using sp [of "year_ge b"] that
    by (simp add: filter_stages_def num_stage_def year_ge_def)
  have 10: "truthy_int (year_built p) \<and> of_int (the (year_built p)) \<le> b"
    if "max_year_built f = Some b" for b
    using sp [of "year_le b"] that
    by (simp add: filter_stages_def num_stage_def year_le_def)
  have 11: "(truthy (cap_rate p) \<and> b \<le> the (cap_rate p))
             \<or> (financial_metrics p \<noteq> []
                \<and> py_ge (dict_get (financial_metrics p) ''cap_rate'' (PInt 0)) b = Inr True)"
    if "min_cap_rate f = Some b" for b
    using sp [of "cap_rate_ge b"] that
    by (simp add: filter_stages_def num_stage_def cap_rate_ge_def split: if_splits)
  have 12: "(truthy (cap_rate p) \<and> the (cap_rate p) \<le> b)
             \<or> (financial_metrics p \<noteq> []
                \<and> py_le (dict_get (financial_metrics p) ''cap_rate'' (PInt 0)) b = Inr True)"
    if "max_cap_rate f = Some b" for b
    using sp [of "cap_rate_le b"] that
    by (simp add: filter_stages_def num_stage_def cap_rate_le_def split: if_splits)
  have 13: "financial_metrics p \<noteq> []
             \<and> py_ge (dict_get (financial_metrics p) ''monthly_cash_flow'' (PInt 0)) b = Inr True"
    if "min_cash_flow f = Some b" for b
    using sp [of "cash_flow_ge b"] that
    by (simp add: filter_stages_def num_stage_def cash_flow_ge_def split: if_splits)
  from 1 2 3 4 5 6 7 8 9 10 11 12 13 show ?thesis by blast
qed

lemma filter_one_stage:
  "filter_stages (no_filters\<lparr>max_cap_rate := Some b\<rparr>)
     = replicate 9 None @ [Some (cap_rate_le b)] @ replicate 7 None"
  "filter_stages (no_filters\<lparr>min_cash_flow := Some b\<rparr>)
     = replicate 14 None @ [Some (cash_flow_ge b)] @ replicate 2 None"
  "filter_stages (no_filters\<lparr>min_price := Some b\<rparr>)
     = replicate 2 None @ [Some (field_ge price b)] @ replicate 14 None"
  by (simp_all add: filter_stages_def no_filters_def num_stage_def list_stage_def
      numeral_eq_Suc)

text \<open>
  Claim C2 as stated fails for the two filters read from \<open>financial_metrics\<close>: a listing
  with no cap rate anywhere passes \<open>max_cap_rate = 10\<close>, and with no monthly cash flow
  it passes \<open>min_cash_flow = 0\<close>, because the missing entry is read as 0.
\<close>

theorem missing_metric_passes_filter_counterexample:
  "filter_properties [no_rent_listing] (no_filters\<lparr>max_cap_rate := Some 10\<rparr>)
     = Inr [no_rent_listing]
   \<and> cap_rate no_rent_listing = None
   \<and> dict_has (financial_metrics no_rent_listing) ''cap_rate'' = False
   \<and> filter_properties [no_rent_listing] (no_filters\<lparr>min_cash_flow := Some 0\<rparr>)
     = Inr [no_rent_listing]
   \<and> dict_has (financial_metrics no_rent_listing) ''monthly_cash_flow'' = False"
proof -
  have m: "financial_metrics no_rent_listing =
         [(''error'', PStr MISSING_RENT), (''down_payment'', PFloat 60000),
          (''loan_amount'', PFloat 240000), (''monthly_mortgage_payment'', PFloat 1000)]"
    "cap_rate no_rent_listing = None"
    by (simp_all add: no_rent_listing_def blank_property_def)
  have c: "cap_rate_le 10 no_rent_listing = Inr True" "cash_flow_ge 0 no_rent_listing = Inr True"
    by (simp_all add: cap_rate_le_def cash_flow_ge_def m truthy_def dict_get_def py_le_def py_ge_def)
  show ?thesis
    by (simp add: filter_properties_def filter_one_stage c m dict_has_def numeral_eq_Suc)
qed

text \<open>
  The amended claim C2 on two listings and \<open>min_price = 250000\<close>: the listing without a
  price is dropped, the one priced 300000 is kept.
\<close>

theorem filter_excludes_missing_fields_witness:
  "filter_properties [blank_property, no_rent_listing] (no_filters\<lparr>min_price := Some 250000\<rparr>)
     = Inr [no_rent_listing]
   \<and> truthy (price no_rent_listing) \<and> 250000 \<le> the (price no_rent_listing)"
proof -
  have c: "field_ge price 250000 blank_property = Inr False"
    "field_ge price 250000 no_rent_listing = Inr True"
    by (simp_all add: field_ge_def no_rent_listing_def blank_property_def truthy_def)
  have r: "filter_properties [blank_property, no_rent_listing]
         (no_filters\<lparr>min_price := Some 250000\<rparr>) = Inr [no_rent_listing]"
    by (simp add: filter_properties_def filter_one_stage c numeral_eq_Suc)
  have f: "min_price (no_filters\<lparr>min_price := Some 250000\<rparr>) = Some 250000" by simp
  from filter_excludes_missing_fields [OF r, of no_rent_listing] f
  have "truthy (price no_rent_listing) \<and> 250000 \<le> the (price no_rent_listing)" by simp
  with r show ?thesis by blast
qed

section \<open>The cache\<close>


text \<open>
  Claim C5. After \<open>set(k, v, ttl)\<close> at instant \<open>t0\<close>, a \<open>get(k)\<close> strictly before
  \<open>t0 + ttl\<close> returns \<open>v\<close> and leaves the store as it is; a \<open>get(k)\<close> at or after
  \<open>t0 + ttl\<close> returns \<open>None\<close> and removes the entry (the map slot in the memory tier,
  the file in the disk tier). For the disk tier the write and the read run without an
  I/O or pickle error.
\<close>

theorem cache_set_then_get:
  "(now < t0 + of_int ttl \<longrightarrow>
      MemoryCache_get (MemoryCache_set cache k v ttl t0) k now
        = (v, MemoryCache_set cache k v ttl t0))
   \<and> (t0 + of_int ttl \<le> now \<longrightarrow>
      MemoryCache_get (MemoryCache_set cache k v ttl t0) k now = (None, cache(k := None)))
   \<and> (now < t0 + of_int ttl \<longrightarrow>
      DiskCache_get md5 (DiskCache_set md5 files k v ttl t0 Written) k now True
        = Inr (v, DiskCache_set md5 files k v ttl t0 Written))
   \<and> (t0 + of_int ttl \<le> now \<longrightarrow>
      DiskCache_get md5 (DiskCache_set md5 files k v ttl t0 Written) k now True
        = Inr (None, files(get_cache_path md5 k := None)))"
  by (simp add: MemoryCache_get_def MemoryCache_set_def DiskCache_get_def DiskCache_set_def
      Let_def)

text \<open>
  Claim C5 with a TTL of one second: a read half a second after the write, and one two
  seconds after it.
\<close>

theorem cache_set_then_get_witness:
  "MemoryCache_get (MemoryCache_set (\<lambda>x. None) ''k'' (Some (7::nat)) 1 0) ''k'' (1 / 2)
     = (Some 7, MemoryCache_set (\<lambda>x. None) ''k'' (Some 7) 1 0)
   \<and> MemoryCache_get (MemoryCache_set (\<lambda>x. None) ''k'' (Some (7::nat)) 1 0) ''k'' 2
     = (None, (\<lambda>x. None))
   \<and> DiskCache_get (\<lambda>s. s) (DiskCache_set (\<lambda>s. s) (\<lambda>x. None) ''k'' (Some (7::nat)) 1 0 Written)
       ''k'' (1 / 2) True
     = Inr (Some 7, DiskCache_set (\<lambda>s. s) (\<lambda>x. None) ''k'' (Some 7) 1 0 Written)
   \<and> DiskCache_get (\<lambda>s. s) (DiskCache_set (\<lambda>s. s) (\<lambda>x. None) ''k'' (Some (7::nat)) 1 0 Written)
       ''k'' 2 True
     = Inr (None, (\<lambda>x. None))"
proof -
  note t1 = cache_set_then_get [of "1 / 2" 0 1 "\<lambda>x. None" "''k''" "Some (7::nat)" "\<lambda>s. s" "\<lambda>x. None"]
  note t2 = cache_set_then_get [of 2 0 1 "\<lambda>x. None" "''k''" "Some (7::nat)" "\<lambda>s. s" "\<lambda>x. None"]
  have a: "(1 / 2 :: real) < 0 + of_int 1" "(0::real) + of_int 1 \<le> 2" by simp_all
  have b: "(\<lambda>x. None)(k := None) = (\<lambda>x. None)" for k :: string by auto
  from t1 a(1) t2 a(2) show ?thesis by (simp only: b simp_thms)
qed

text \<open>
  What a failed write does to the disk tier: a dump that failed before anything reached
  the file destroys the entry that was there, and the next read raises \<open>EOFError\<close>,
  out of \<open>get\<close> and out of the wrapper, without the wrapped function being called.
\<close>

lemma failed_write_then_read:
  "DiskCache_get md5 (DiskCache_set md5 files k v ttl t0 DumpFailedEmpty) k now True
     = Inl EOFError"
  "disk_wrapper md5 (DiskCache_set md5 files k v ttl t0 DumpFailedEmpty) k ttl' now later True w r
     = Inl EOFError"
  by (simp_all add: disk_wrapper_def DiskCache_get_def DiskCache_set_def Let_def)

lemma memory_wrapper_none_stored:
  assumes "none_stored cache k"
  shows "\<exists>c. memory_wrapper cache k ttl now later r = (r, c, True) \<and> (r = None \<longrightarrow> none_stored c k)"
  using assms
  by (auto simp: none_stored_def memory_wrapper_def MemoryCache_get_def MemoryCache_set_def
      split: option.splits)

lemma memory_calls_none:
  assumes "none_stored cache k" "list_all (\<lambda>c. snd (snd (snd c)) = None) calls"
  shows "memory_calls cache k calls = replicate (length calls) True"
  using assms
proof (induction calls arbitrary: cache)
  case Nil
  then show ?case by simp
next
  case (Cons c calls)
  obtain ttl now later r where c: "c = (ttl, now, later, r)" by (cases c) auto
  with Cons.prems have r: "r = None" by simp
  from memory_wrapper_none_stored [OF Cons.prems(1), of ttl now later r] r obtain c1
    where w: "memory_wrapper cache k ttl now later r = (r, c1, True)" and n: "none_stored c1 k"
    by blast
  from Cons.IH [OF n] Cons.prems(2) have "memory_calls c1 k calls = replicate (length calls) True"
    by simp
  with w c show ?case by simp
qed

lemma disk_wrapper_none_on_disk:
  assumes "none_on_disk files (get_cache_path md5 k)"
  shows "\<exists>c. disk_wrapper md5 files k ttl now later rok Written r = Inr (r, c, True)
           \<and> (r = None \<longrightarrow> none_on_disk c (get_cache_path md5 k))"
  using assms
  by (auto simp: none_on_disk_def disk_wrapper_def DiskCache_get_def DiskCache_set_def Let_def
      split: option.splits disk_file.splits)

lemma disk_calls_none:
  assumes "none_on_disk files (get_cache_path md5 k)"
    "list_all (\<lambda>(ttl, now, later, rok, w, r). w = Written \<and> r = None) calls"
  shows "disk_calls md5 files k calls = Inr (replicate (length calls) True)"
  using assms
proof (induction calls arbitrary: files)
  case Nil
  then show ?case by simp
next
  case (Cons c calls)
  obtain ttl now later rok w r where c: "c = (ttl, now, later, rok, w, r)" by (cases c) auto
  with Cons.prems have r: "r = None" "w = Written" by simp_all
  from disk_wrapper_none_on_disk [OF Cons.prems(1), of ttl now later rok r] r obtain c1
    where w: "disk_wrapper md5 files k ttl now later rok Written r = Inr (r, c1, True)"
      and n: "none_on_disk c1 (get_cache_path md5 k)"
    by blast
  from Cons.IH [OF n] Cons.prems(2)
  have "disk_calls md5 c1 k calls = Inr (replicate (length calls) True)" by simp
  with w c r show ?case by simp
qed

text \<open>
  Claim C9. After a call in which the wrapped function ran and returned \<open>None\<close> (and,
  on disk, the result was written), every following call with the same key returns and
  calls the function again, as long as it keeps returning \<open>None\<close>: whatever the
  instants and the TTLs of those calls, and on disk whatever I/O errors their reads meet,
  their writes succeeding.
\<close>

theorem none_result_never_served:
  "(memory_wrapper cache k ttl now later None = (ret, cache1, True)
      \<and> list_all (\<lambda>c. snd (snd (snd c)) = None) calls
    \<longrightarrow> ret = None \<and> memory_calls cache1 k calls = replicate (length calls) True)
   \<and> (disk_wrapper md5 files k ttl now later read_ok Written None = Inr (ret', files1, True)
      \<and> list_all (\<lambda>(ttl, now, later, rok, w, r). w = Written \<and> r = None) dcalls
    \<longrightarrow> ret' = None \<and> disk_calls md5 files1 k dcalls = Inr (replicate (length dcalls) True))"
proof -
  have "ret = None \<and> memory_calls cache1 k calls = replicate (length calls) True"
    if w: "memory_wrapper cache k ttl now later None = (ret, cache1, True)"
      and l: "list_all (\<lambda>c. snd (snd (snd c)) = None) calls"
  proof -
    from w have "ret = None" "none_stored cache1 k"
      by (auto simp: memory_wrapper_def MemoryCache_get_def MemoryCache_set_def none_stored_def
          split: option.splits prod.splits if_splits)
    with memory_calls_none [OF _ l] show ?thesis by blast
  qed
  moreover
  have "ret' = None \<and> disk_calls md5 files1 k dcalls = Inr (replicate (length dcalls) True)"
    if w: "disk_wrapper md5 files k ttl now later read_ok Written None = Inr (ret', files1, True)"
      and l: "list_all (\<lambda>(ttl, now, later, rok, w, r). w = Written \<and> r = None) dcalls"
  proof -
    from w have "ret' = None" "none_on_disk files1 (get_cache_path md5 k)"
      by (auto simp: disk_wrapper_def DiskCache_get_def DiskCache_set_def none_on_disk_def Let_def
          split: option.splits prod.splits if_splits sum.splits disk_file.splits)
    with disk_calls_none [OF _ l] show ?thesis by blast
  qed
  ultimately show ?thesis by blast
qed

text \<open>
  Claim C9 on two follow-up calls, one before and one after the stored \<open>None\<close> expires;
  on disk the second one meets an I/O error when it reads.
\<close>

theorem none_result_never_served_witness:
  "memory_calls (MemoryCache_set (\<lambda>x. None) ''f:1'' None 3600 1) ''f:1''
      [(3600, 2, 3, None :: nat option), (3600, 5000, 5001, None)] = [True, True]
   \<and> disk_calls (\<lambda>s. s) (DiskCache_set (\<lambda>s. s) (\<lambda>x. None) ''f:1'' None 3600 1 Written) ''f:1''
      [(3600, 2, 3, True, Written, None :: nat option), (3600, 5000, 5001, False, Written, None)]
       = Inr [True, True]"
proof -
  let ?calls = "[(3600, 2, 3, None :: nat option), (3600, 5000, 5001, None)]"
  let ?dcalls = "[(3600, 2, 3, True, Written, None :: nat option),
                  (3600, 5000, 5001, False, Written, None)]"
  have m: "memory_wrapper (\<lambda>x. None) ''f:1'' 3600 0 1 (None :: nat option)
             = (None, MemoryCache_set (\<lambda>x. None) ''f:1'' None 3600 1, True)"
    by (simp add: memory_wrapper_def MemoryCache_get_def)
  have d: "disk_wrapper (\<lambda>s. s) (\<lambda>x. None) ''f:1'' 3600 0 1 True Written (None :: nat option)
             = Inr (None, DiskCache_set (\<lambda>s. s) (\<lambda>x. None) ''f:1'' None 3600 1 Written, True)"
    by (simp add: disk_wrapper_def DiskCache_get_def Let_def)
  have l: "list_all (\<lambda>c. snd (snd (snd c)) = None) ?calls"
    "list_all (\<lambda>(ttl, now, later, rok, w, r). w = Written \<and> r = None) ?dcalls"
    by simp_all
  from none_result_never_served [of "\<lambda>x. None" "''f:1''" 3600 0 1 None
      "MemoryCache_set (\<lambda>x. None) ''f:1'' None 3600 1" ?calls "\<lambda>s. s" "\<lambda>x. None" True None
      "DiskCache_set (\<lambda>s. s) (\<lambda>x. None) ''f:1'' None 3600 1 Written" ?dcalls] m d l
  show ?thesis by (simp add: numeral_eq_Suc)
qed

subsection \<open>Cache keys\<close>


lemma join_colon_Cons:
  "join_colon (x # xs) = (if xs = [] then x else x @ CHR '':'' # join_colon xs)"
  by (cases xs) simp_all

lemma takeWhile_upto_char:
  "c \<notin> set x \<Longrightarrow> takeWhile (\<lambda>a. a \<noteq> c) (x @ c # r) = x"
  by (induction x) auto

lemma colon_free_split:
  assumes "CHR '':'' \<notin> set x" "CHR '':'' \<notin> set y" "x @ CHR '':'' # r = y @ CHR '':'' # s"
  shows "x = y \<and> r = s"
proof -
  have "takeWhile (\<lambda>c. c \<noteq> CHR '':'') (x @ CHR '':'' # r) = x"
    "takeWhile (\<lambda>c. c \<noteq> CHR '':'') (y @ CHR '':'' # s) = y"
    using assms(1,2) by (simp_all add: takeWhile_upto_char)
  with assms(3) have "x = y" by simp
  with assms(3) show ?thesis by simp
qed

lemma join_colon_inj:
  assumes "list_all (\<lambda>x. CHR '':'' \<notin> set x) xs" "list_all (\<lambda>x. CHR '':'' \<notin> set x) ys"
    "xs \<noteq> []" "ys \<noteq> []" "join_colon xs = join_colon ys"
  shows "xs = ys"
  using assms
proof (induction xs arbitrary: ys)
  case Nil
  then show ?case by simp
next
  case (Cons x xs)
  from Cons.prems(4) obtain y ys' where ys: "ys = y # ys'" by (cases ys) auto
  from Cons.prems(1,2) ys have cf: "CHR '':'' \<notin> set x" "CHR '':'' \<notin> set y" by simp_all
  show ?case
  proof (cases "xs = []")
    case True
    show ?thesis
    proof (cases "ys' = []")
      case True
      with \<open>xs = []\<close> Cons.prems(5) ys show ?thesis by simp
    next
      case False
      with \<open>xs = []\<close> Cons.prems(5) ys have "x = y @ CHR '':'' # join_colon ys'"
        by (simp add: join_colon_Cons)
      with cf(1) show ?thesis by auto
    qed
  next
    case False
    show ?thesis
    proof (cases "ys' = []")
      case True
      with False Cons.prems(5) ys have "y = x @ CHR '':'' # join_colon xs"
        by (simp add: join_colon_Cons)
      with cf(2) show ?thesis by auto
    next
      case ne: False
      with False Cons.prems(5) ys
      have "x @ CHR '':'' # join_colon xs = y @ CHR '':'' # join_colon ys'"
        by (simp add: join_colon_Cons)
      from colon_free_split [OF cf this] have "x = y" "join_colon xs = join_colon ys'" by simp_all
      moreover from Cons.prems(1,2) ys have "list_all (\<lambda>x. CHR '':'' \<notin> set x) xs"
        "list_all (\<lambda>x. CHR '':'' \<notin> set x) ys'" by simp_all
      ultimately show ?thesis using Cons.IH [of ys'] False ne ys by simp
    qed
  qed
qed

lemma kw_part_has_eq: "CHR ''='' \<in> set (kw_part str kv)"
  by (simp add: kw_part_def)

lemma args_kwargs_split:
  assumes "list_all (\<lambda>x. CHR ''='' \<notin> set x) as" "list_all (\<lambda>x. CHR ''='' \<notin> set x) bs"
    "as @ map (kw_part str) ks = bs @ map (kw_part str) ls"
  shows "as = bs \<and> map (kw_part str) ks = map (kw_part str) ls"
proof -
  have "takeWhile (\<lambda>x. CHR ''='' \<notin> set x) (as @ map (kw_part str) ks) = as"
    using assms(1) by (cases ks) (simp_all add: list_all_iff takeWhile_append2 kw_part_has_eq)
  moreover have "takeWhile (\<lambda>x. CHR ''='' \<notin> set x) (bs @ map (kw_part str) ls) = bs"
    using assms(2) by (cases ls) (simp_all add: list_all_iff takeWhile_append2 kw_part_has_eq)
  ultimately have "as = bs" using assms(3) by simp
  with assms(3) show ?thesis by simp
qed

lemma sort_key_dict_order:
  assumes "distinct (map fst kw)" "distinct (map fst kw')" "set kw = set kw'"
  shows "sort_key fst kw = sort_key fst kw'"
proof (rule map_sorted_distinct_set_unique [where f = fst])
  from assms(1) have "inj_on fst (set kw)" by (simp add: distinct_map)
  with assms(3) show "inj_on fst (set (sort_key fst kw) \<union> set (sort_key fst kw'))" by simp
  show "sorted (map fst (sort_key fst kw))" "sorted (map fst (sort_key fst kw'))" by simp_all
  from assms(1) show "distinct (map fst (sort_key fst kw))"
    by (simp add: distinct_map)
  from assms(2) show "distinct (map fst (sort_key fst kw'))"
    by (simp add: distinct_map)
  from assms(3) show "set (sort_key fst kw) = set (sort_key fst kw')" by simp
qed

text \<open>
  Claim C6 as stated fails: the positional arguments \<open>("a:b")\<close> and \<open>("a", "b")\<close>
  differ and give the same key, and so do the positional argument \<open>"k=v"\<close> and the
  keyword argument \<open>k="v"\<close>.
\<close>

theorem cache_key_collision_counterexample:
  "cache_key (\<lambda>s. s) ''search'' [''a:b''] [] = cache_key (\<lambda>s. s) ''search'' [''a'', ''b''] []
   \<and> [''a:b''] \<noteq> [''a'', ''b'']
   \<and> cache_key (\<lambda>s. s) ''search'' [''k=v''] [] = cache_key (\<lambda>s. s) ''search'' [] [(''k'', ''v'')]"
  by (simp add: cache_key_def key_parts_def kw_part_def)

text \<open>
  Claim C6, amended. The key does not depend on the order in which the keyword arguments
  are given. Two calls none of whose key parts holds a colon, and none of whose
  positional parts holds an equals sign, have the same key exactly when they agree on the
  function name, on the \<open>str\<close> forms of the positional arguments and on the sorted
  \<open>k=str(v)\<close> forms of the keyword arguments.
\<close>

theorem cache_key_deterministic:
  "(distinct (map fst kw) \<and> distinct (map fst kw') \<and> set kw = set kw'
      \<longrightarrow> cache_key str name args kw = cache_key str name args kw')
   \<and> (separator_free str n1 a1 k1 \<and> separator_free str n2 a2 k2
      \<longrightarrow> (cache_key str n1 a1 k1 = cache_key str n2 a2 k2
            \<longleftrightarrow> n1 = n2 \<and> map str a1 = map str a2
                \<and> map (kw_part str) (sort_key fst k1) = map (kw_part str) (sort_key fst k2)))"
proof -
  have 1: "cache_key str name args kw = cache_key str name args kw'"
    if "distinct (map fst kw)" "distinct (map fst kw')" "set kw = set kw'"
    using sort_key_dict_order [OF that] by (simp add: cache_key_def key_parts_def)
  have 2: "n1 = n2 \<and> map str a1 = map str a2
           \<and> map (kw_part str) (sort_key fst k1) = map (kw_part str) (sort_key fst k2)"
    if s1: "separator_free str n1 a1 k1" and s2: "separator_free str n2 a2 k2"
      and eq: "cache_key str n1 a1 k1 = cache_key str n2 a2 k2"
  proof -
    from s1 s2 eq have "key_parts str n1 a1 k1 = key_parts str n2 a2 k2"
      by (intro join_colon_inj) (simp_all add: separator_free_def cache_key_def key_parts_def)
    then have n: "n1 = n2"
      and r: "map str a1 @ map (kw_part str) (sort_key fst k1)
            = map str a2 @ map (kw_part str) (sort_key fst k2)"
      by (simp_all add: key_parts_def)
    from s1 s2 have "list_all (\<lambda>x. CHR ''='' \<notin> set x) (map str a1)"
      "list_all (\<lambda>x. CHR ''='' \<notin> set x) (map str a2)"
      by (simp_all add: separator_free_def)
    from args_kwargs_split [OF this r] n show ?thesis by simp
  qed
  have 3: "cache_key str n1 a1 k1 = cache_key str n2 a2 k2"
    if "n1 = n2 \<and> map str a1 = map str a2
           \<and> map (kw_part str) (sort_key fst k1) = map (kw_part str) (sort_key fst k2)"
    using that by (simp add: cache_key_def key_parts_def)
  from 1 2 3 show ?thesis by blast
qed

text \<open>
  The amended claim C6 on a search call: reordered keyword arguments give the same key,
  another location gives another key.
\<close>

theorem cache_key_deterministic_witness:
  "cache_key (\<lambda>s. s) ''search'' [''austin''] [(''min_price'', ''1''), (''max_price'', ''9'')]
     = cache_key (\<lambda>s. s) ''search'' [''austin''] [(''max_price'', ''9''), (''min_price'', ''1'')]
   \<and> cache_key (\<lambda>s. s) ''search'' [''austin''] [(''min_price'', ''1'')]
     \<noteq> cache_key (\<lambda>s. s) ''search'' [''boston''] [(''min_price'', ''1'')]"
proof -
  let ?k1 = "[(''min_price'', ''1''), (''max_price'', ''9'')]"
  let ?k2 = "[(''max_price'', ''9''), (''min_price'', ''1'')]"
  let ?k = "[(''min_price'', ''1'')]"
  note t = cache_key_deterministic [of ?k1 ?k2 "\<lambda>s. s" "''search''" "[''austin'']"
      "''search''" "[''austin'']" ?k "''search''" "[''boston'']" ?k]
  have d: "distinct (map fst ?k1) \<and> distinct (map fst ?k2) \<and> set ?k1 = set ?k2" by auto
  have s: "separator_free (\<lambda>s. s) ''search'' [''austin''] ?k"
    "separator_free (\<lambda>s. s) ''search'' [''boston''] ?k"
    by (simp_all add: separator_free_def key_parts_def kw_part_def)
  from t d have a: "cache_key (\<lambda>s. s) ''search'' [''austin''] ?k1
     = cache_key (\<lambda>s. s) ''search'' [''austin''] ?k2" by blast
  from t s have "cache_key (\<lambda>s. s) ''search'' [''austin''] ?k
      = cache_key (\<lambda>s. s) ''search'' [''boston''] ?k
     \<longleftrightarrow> ''search'' = ''search'' \<and> map (\<lambda>s. s) [''austin''] = map (\<lambda>s. s) [''boston'']
        \<and> map (kw_part (\<lambda>s. s)) (sort_key fst ?k) = map (kw_part (\<lambda>s. s)) (sort_key fst ?k)"
    by blast
  then have "cache_key (\<lambda>s. s) ''search'' [''austin''] ?k
      \<noteq> cache_key (\<lambda>s. s) ''search'' [''boston''] ?k" by simp
  with a show ?thesis by blast
qed

end
